theory Spec2Isabelle
  imports Main
begin

section \<open>Asynchronous calls to the collaborator services\<close>

text \<open>
  Every \<^verbatim>\<open>await\<close> of \<^verbatim>\<open>src/background/services/enrichment/index.ts\<close> waits for
  a collaborator (ChainService, IndexingService, NameService).  A collaborator call is
  recorded as a \<open>call\<close>; an awaited promise is the list of calls it issued, in the order
  they were started, together with the way it settled.\<close>

datatype 'a settled = Rejected string | Fulfilled 'a

datatype 'a nullable = Undefined | Null | Defined 'a

record asset_metadata =
  logoURL :: "string option"

text \<open>
  An entry of the asset list.  \<open>contractAddress\<close> is \<open>None\<close> for an asset without
  that property (\<^verbatim>\<open>"contractAddress" in asset\<close> is false).\<close>

record asset =
  symbol :: string
  decimals :: nat
  contractAddress :: "string option"
  metadata :: "asset_metadata option"

record network =
  networkName :: string
  chainID :: string
  baseAsset :: asset

datatype call =
    GetBlockData network string
  | GetCachedAssets network
  | LookUpName string network

type_synonym 'a promise = "call list \<times> 'a settled"

definition resolved :: "'a \<Rightarrow> 'a promise" where
  "resolved x = ([], Fulfilled x)"

definition rejected :: "string \<Rightarrow> 'a promise" where
  "rejected e = ([], Rejected e)"

text \<open>\<^verbatim>\<open>const x = await p; k(x)\<close>: a rejection of \<open>p\<close> is rethrown, \<open>k\<close> does not run.\<close>

definition await :: "'a promise \<Rightarrow> ('a \<Rightarrow> 'b promise) \<Rightarrow> 'b promise" where
  "await p k =
     (case p of
        (cs, Rejected e) \<Rightarrow> (cs, Rejected e)
      | (cs, Fulfilled x) \<Rightarrow> (case k x of (cs', r) \<Rightarrow> (cs @ cs', r)))"

text \<open>\<^verbatim>\<open>Promise.allSettled\<close>: all promises are started, none of them makes the result reject.\<close>

definition allSettled :: "'a promise list \<Rightarrow> 'a settled list promise" where
  "allSettled ps = (concat (map fst ps), Fulfilled (map snd ps))"

section \<open>Data model\<close>

record block =
  blockTimestamp_of :: int

record evm_log =
  logContractAddress :: string
  logData :: string
  logTopics :: "string list"

text \<open>An element of the result of \<^verbatim>\<open>parseLogsForERC20Transfers\<close>.\<close>

record erc20_transfer_log =
  log_contractAddress :: string
  log_amount :: int
  log_senderAddress :: string
  log_recipientAddress :: string

text \<open>
  The result of \<^verbatim>\<open>parseERC20Tx\<close>: the name of the decoded function and its arguments.
  \<open>args_from\<close> is \<open>None\<close> when the decoded function has no \<^verbatim>\<open>from\<close> argument
  (\<^verbatim>\<open>transfer\<close>); the caller reads \<open>args_to\<close> and \<open>args_amount\<close> only for
  \<^verbatim>\<open>transfer\<close>/\<^verbatim>\<open>transferFrom\<close>, \<open>args_spender\<close> and \<open>args_value\<close> only for
  \<^verbatim>\<open>approve\<close>.\<close>

record erc20_args =
  args_from :: "string option"
  args_to :: string
  args_amount :: int
  args_spender :: string
  args_value :: int

record erc20_tx =
  erc20_name :: string
  args :: erc20_args

text \<open>
  The fields of \<^verbatim>\<open>AnyEVMTransaction | (Partial<EIP1559TransactionRequest> & {from, blockHash?})\<close>
  that \<^verbatim>\<open>resolveTransactionAnnotation\<close> reads.  \<open>logs = None\<close> stands for a transaction
  without a \<^verbatim>\<open>logs\<close> property, or with \<^verbatim>\<open>logs\<close> undefined.\<close>

record transaction =
  tx_from :: string
  tx_to :: "string option"
  tx_input :: "string nullable"
  tx_value :: "int option"
  blockHash :: "string option"
  logs :: "evm_log list option"

record asset_amount =
  asset :: asset
  amount :: int

text \<open>
  \<^verbatim>\<open>TransactionAnnotation\<close>: the tagged union on \<^verbatim>\<open>type\<close>, here \<open>variant\<close>, with the
  fields common to all variants.  \<open>'e\<close> is the type of an asset amount enriched with
  decimal values.\<close>

datatype 'e annotation_variant =
    ContractDeployment
  | ContractInteraction (contractName: "string option")
  | AssetApproval (assetAmount: 'e) (spenderAddress: string) (spenderName: "string option")
  | AssetTransfer (assetAmount: 'e) (senderAddress: string) (recipientAddress: string)
      (recipientName: "string option")

datatype 'e annotation =
  TransactionAnnotation (timestamp: int) (blockTimestamp: "int option")
    (transactionLogoURL: "string option") (variant: "'e annotation_variant")
    (subannotations: "'e annotation list option")

record typed_data_domain =
  verifyingContract :: "string option"
  chainId :: "int option"

record typed_data =
  domain :: typed_data_domain
  primaryType :: string
  message :: "(string \<times> string) list"

record sign_typed_data_request =
  account :: string
  typedData :: typed_data

datatype sign_typed_data_annotation =
    Unrecognized
  | EIP2612Permit (permit_asset: "asset option") (permit_owner: "string option")
      (permit_spender: "string option") (permit_amount: "string option")
      (permit_deadline: "string option")

section \<open>Collaborators and imported helpers\<close>

text \<open>
  The services held by \<^verbatim>\<open>EnrichmentService\<close> and the functions and the constant it
  imports from other modules are parameters of the model.  \<open>lookUpName\<close> fulfils with
  \<open>Some n\<close> for a record \<^verbatim>\<open>{name: n}\<close> and with \<open>None\<close> for \<^verbatim>\<open>undefined\<close>.\<close>

record 'e collaborators =
  dateNow :: int
  getBlockData :: "network \<Rightarrow> string \<Rightarrow> block option settled"
  getCachedAssets :: "network \<Rightarrow> asset list settled"
  lookUpName :: "string \<Rightarrow> network \<Rightarrow> string option settled"
  parseERC20Tx :: "string \<Rightarrow> erc20_tx option"
  parseLogsForERC20Transfers :: "evm_log list \<Rightarrow> erc20_transfer_log list"
  isSmartContractFungibleAsset :: "asset \<Rightarrow> bool"
  sameEVMAddress :: "string option \<Rightarrow> string option \<Rightarrow> bool"
  normalizeEVMAddress :: "string \<Rightarrow> string"
  normalizeHexAddress :: "string \<Rightarrow> string"
  enrichAssetAmountWithDecimalValues :: "asset_amount \<Rightarrow> int \<Rightarrow> 'e"
  isEIP2612TypedData :: "typed_data \<Rightarrow> bool"
  ETHEREUM :: network

definition chainService_getBlockData ::
  "'e collaborators \<Rightarrow> network \<Rightarrow> string \<Rightarrow> block option promise" where
  "chainService_getBlockData env net h = ([GetBlockData net h], getBlockData env net h)"

definition indexingService_getCachedAssets ::
  "'e collaborators \<Rightarrow> network \<Rightarrow> asset list promise" where
  "indexingService_getCachedAssets env net = ([GetCachedAssets net], getCachedAssets env net)"

definition nameService_lookUpName ::
  "'e collaborators \<Rightarrow> string \<Rightarrow> network \<Rightarrow> string option promise" where
  "nameService_lookUpName env address net = ([LookUpName address net], lookUpName env address net)"

section \<open>resolveTransactionAnnotation\<close>

text \<open>JavaScript truthiness of an optional string: defined and not empty.\<close>

definition truthy :: "string option \<Rightarrow> bool" where
  "truthy s = (case s of None \<Rightarrow> False | Some v \<Rightarrow> v \<noteq> [])"

text \<open>
  \<^verbatim>\<open>assets.find((asset) => isSmartContractFungibleAsset(asset) &&
  sameEVMAddress(asset.contractAddress, address))\<close> (lines 179-183 and 299-303).\<close>

definition findMatchingFungibleAsset ::
  "'e collaborators \<Rightarrow> asset list \<Rightarrow> string \<Rightarrow> asset option" where
  "findMatchingFungibleAsset env assets address =
     List.find (\<lambda>a. isSmartContractFungibleAsset env a \<and>
                    sameEVMAddress env (contractAddress a) (Some address)) assets"

text \<open>\<^verbatim>\<open>matchingFungibleAsset?.metadata?.logoURL\<close> (line 185).\<close>

definition logoURLOf :: "asset option \<Rightarrow> string option" where
  "logoURLOf m =
     (case m of None \<Rightarrow> None
      | Some a \<Rightarrow> (case metadata a of None \<Rightarrow> None | Some md \<Rightarrow> logoURL md))"

text \<open>\<^verbatim>\<open>block?.timestamp\<close>.\<close>

definition timestampOf :: "block option \<Rightarrow> int option" where
  "timestampOf b = map_option blockTimestamp_of b"

text \<open>
  Lines 126-260: the \<^verbatim>\<open>if\<close> chain that assigns \<^verbatim>\<open>txAnnotation\<close>.  The annotation
  objects of the first two branches have no \<^verbatim>\<open>transactionLogoURL\<close> property.\<close>

definition primaryAnnotation ::
  "'e collaborators \<Rightarrow> network \<Rightarrow> transaction \<Rightarrow> int \<Rightarrow> int \<Rightarrow> block option
     \<Rightarrow> 'e annotation option promise" where
  "primaryAnnotation env net tx desiredDecimals resolvedTime blk =
     (case tx_to tx of
        None \<Rightarrow>
          resolved (Some (TransactionAnnotation resolvedTime (timestampOf blk) None
            ContractDeployment None))
      | Some to \<Rightarrow>
          if tx_input tx = Null \<or> tx_input tx = Defined ''0x'' \<or> tx_input tx = Undefined
          then
            await (nameService_lookUpName env to net) (\<lambda>toName.
              (case tx_value tx of
                 Some v \<Rightarrow>
                   resolved (Some (TransactionAnnotation resolvedTime (timestampOf blk) None
                     (AssetTransfer
                        (enrichAssetAmountWithDecimalValues env
                           \<lparr>asset = baseAsset net, amount = v\<rparr> desiredDecimals)
                        (tx_from tx) to toName)
                     None))
               | None \<Rightarrow>
                   resolved (Some (TransactionAnnotation resolvedTime (timestampOf blk) None
                     (ContractInteraction toName) None))))
          else
            await (indexingService_getCachedAssets env net) (\<lambda>assets.
              let matchingFungibleAsset = findMatchingFungibleAsset env assets to;
                  transactionLogoURL = logoURLOf matchingFungibleAsset;
                  erc20Tx = (case tx_input tx of Defined i \<Rightarrow> parseERC20Tx env i | _ \<Rightarrow> None)
              in
                if matchingFungibleAsset \<noteq> None \<and> erc20Tx \<noteq> None \<and>
                   (erc20_name (the erc20Tx) = ''transfer'' \<or>
                    erc20_name (the erc20Tx) = ''transferFrom'')
                then
                  await (nameService_lookUpName env (args_to (args (the erc20Tx))) net)
                    (\<lambda>toName.
                      resolved (Some (TransactionAnnotation resolvedTime (timestampOf blk)
                        transactionLogoURL
                        (AssetTransfer
                           (enrichAssetAmountWithDecimalValues env
                              \<lparr>asset = the matchingFungibleAsset,
                               amount = args_amount (args (the erc20Tx))\<rparr> desiredDecimals)
                           (case args_from (args (the erc20Tx)) of
                              Some f \<Rightarrow> f | None \<Rightarrow> tx_from tx)
                           (args_to (args (the erc20Tx))) toName)
                        None)))
                else if matchingFungibleAsset \<noteq> None \<and> erc20Tx \<noteq> None \<and>
                        erc20_name (the erc20Tx) = ''approve''
                then
                  await (nameService_lookUpName env (args_spender (args (the erc20Tx))) net)
                    (\<lambda>spenderName.
                      resolved (Some (TransactionAnnotation resolvedTime (timestampOf blk)
                        transactionLogoURL
                        (AssetApproval
                           (enrichAssetAmountWithDecimalValues env
                              \<lparr>asset = the matchingFungibleAsset,
                               amount = args_value (args (the erc20Tx))\<rparr> desiredDecimals)
                           (args_spender (args (the erc20Tx))) spenderName)
                        None)))
                else
                  await (nameService_lookUpName env to net) (\<lambda>toName.
                    resolved (Some (TransactionAnnotation resolvedTime (timestampOf blk)
                      transactionLogoURL (ContractInteraction toName) None)))))"

text \<open>\<^verbatim>\<open>[...new Set(xs)]\<close>: the distinct elements, in the order of their first occurrence.\<close>

definition setToArray :: "'a list \<Rightarrow> 'a list" where
  "setToArray xs = rev (remdups (rev xs))"

text \<open>
  \<^verbatim>\<open>.filter((result) => result.status === "fulfilled" && result.value[1] !== undefined)
  .map(({ value }) => value)\<close> (lines 289-293).\<close>

fun fulfilledNames :: "(string \<times> string option) settled list \<Rightarrow> (string \<times> string) list" where
  "fulfilledNames [] = []"
| "fulfilledNames (Fulfilled (k, Some n) # rs) = (k, n) # fulfilledNames rs"
| "fulfilledNames (_ # rs) = fulfilledNames rs"

text \<open>\<^verbatim>\<open>Object.fromEntries\<close>: of two entries with the same key the later one stays.\<close>

definition fromEntries :: "(string \<times> 'v) list \<Rightarrow> (string \<rightharpoonup> 'v)" where
  "fromEntries es = map_of (rev es)"

text \<open>The addresses whose names the log pass looks up (lines 272-277).\<close>

definition transferLogAddresses :: "erc20_transfer_log list \<Rightarrow> string list" where
  "transferLogAddresses erc20TransferLogs = setToArray (map log_recipientAddress erc20TransferLogs)"

text \<open>Lines 269-294: look up transfer log names, then flatten to an address -> name map.\<close>

definition lookUpNamesByAddress ::
  "'e collaborators \<Rightarrow> network \<Rightarrow> erc20_transfer_log list \<Rightarrow> (string \<rightharpoonup> string) promise" where
  "lookUpNamesByAddress env net erc20TransferLogs =
     await (allSettled
              (map (\<lambda>address.
                      await (nameService_lookUpName env address net) (\<lambda>r.
                        resolved (normalizeEVMAddress env address, r)))
                   (transferLogAddresses erc20TransferLogs)))
       (\<lambda>results. resolved (fromEntries (fulfilledNames results)))"

text \<open>Lines 296-330: the \<^verbatim>\<open>flatMap\<close> over the decoded transfer logs.\<close>

definition resolveSubannotations ::
  "'e collaborators \<Rightarrow> asset list \<Rightarrow> (string \<rightharpoonup> string) \<Rightarrow> int \<Rightarrow> int \<Rightarrow> block option
     \<Rightarrow> erc20_transfer_log list \<Rightarrow> 'e annotation list" where
  "resolveSubannotations env assets namesByAddress desiredDecimals resolvedTime blk
     erc20TransferLogs =
     concat (map (\<lambda>l.
       let matchingFungibleAsset = findMatchingFungibleAsset env assets (log_contractAddress l);
           recipientName = namesByAddress (normalizeEVMAddress env (log_recipientAddress l))
       in (case matchingFungibleAsset of
             Some m \<Rightarrow>
               [TransactionAnnotation resolvedTime (timestampOf blk) None
                  (AssetTransfer
                     (enrichAssetAmountWithDecimalValues env
                        \<lparr>asset = m, amount = log_amount l\<rparr> desiredDecimals)
                     (log_senderAddress l) (log_recipientAddress l) recipientName)
                  None]
           | None \<Rightarrow> [])) erc20TransferLogs)"

text \<open>
  Lines 262-335: look up logs and resolve subannotations, if available.  Assigning a
  property of \<^verbatim>\<open>undefined\<close> throws a TypeError.\<close>

definition attachSubannotations ::
  "'e collaborators \<Rightarrow> network \<Rightarrow> transaction \<Rightarrow> int \<Rightarrow> int \<Rightarrow> block option
     \<Rightarrow> 'e annotation option \<Rightarrow> 'e annotation option promise" where
  "attachSubannotations env net tx desiredDecimals resolvedTime blk txAnnotation =
     (case logs tx of
        None \<Rightarrow> resolved txAnnotation
      | Some ls \<Rightarrow>
          await (indexingService_getCachedAssets env net) (\<lambda>assets.
            let erc20TransferLogs = parseLogsForERC20Transfers env ls in
            await (lookUpNamesByAddress env net erc20TransferLogs) (\<lambda>namesByAddress.
              let subs = resolveSubannotations env assets namesByAddress desiredDecimals
                           resolvedTime blk erc20TransferLogs
              in if length subs > 0 then
                   (case txAnnotation of
                      None \<Rightarrow> rejected ''TypeError''
                    | Some a \<Rightarrow>
                        resolved (Some (TransactionAnnotation (timestamp a) (blockTimestamp a)
                          (transactionLogoURL a) (variant a) (Some subs))))
                 else resolved txAnnotation)))"

text \<open>Lines 104-338.\<close>

definition resolveTransactionAnnotation ::
  "'e collaborators \<Rightarrow> network \<Rightarrow> transaction \<Rightarrow> int \<Rightarrow> 'e annotation option promise" where
  "resolveTransactionAnnotation env net tx desiredDecimals =
     (let resolvedTime = dateNow env in
      await (if truthy (blockHash tx)
             then chainService_getBlockData env net (the (blockHash tx))
             else resolved None) (\<lambda>blk.
      await (primaryAnnotation env net tx desiredDecimals resolvedTime blk) (\<lambda>txAnnotation.
      attachSubannotations env net tx desiredDecimals resolvedTime blk txAnnotation)))"

section \<open>enrichSignTypedDataRequest\<close>

text \<open>
  Modelled from the spec: \<^verbatim>\<open>enrichEIP2612SignTypedDataRequest\<close> of
  \<^verbatim>\<open>./utils\<close> is not among the sources.  The specification says that it produces the
  permit annotation (owner, spender, amount, deadline, asset), where the asset is the
  corresponding asset it is given and may be undefined.  The other fields are read from
  the message of the typed data.\<close>

definition enrichEIP2612SignTypedDataRequest ::
  "typed_data \<Rightarrow> asset option \<Rightarrow> sign_typed_data_annotation" where
  "enrichEIP2612SignTypedDataRequest td correspondingAsset =
     EIP2612Permit correspondingAsset
       (map_of (message td) ''owner'') (map_of (message td) ''spender'')
       (map_of (message td) ''value'') (map_of (message td) ''deadline'')"

text \<open>Lines 371-384: the asset whose contract address is the verifying contract.\<close>

definition findCorrespondingAsset ::
  "'e collaborators \<Rightarrow> typed_data \<Rightarrow> asset list \<Rightarrow> asset option" where
  "findCorrespondingAsset env td assets =
     List.find (\<lambda>a.
       if truthy (verifyingContract (domain td)) \<and> contractAddress a \<noteq> None
       then normalizeHexAddress env (the (contractAddress a)) =
              normalizeHexAddress env (the (verifyingContract (domain td)))
       else False) assets"

text \<open>
  Lines 362-403.  The value returned is the request with its annotation; the event
  emitted before returning carries the same value.\<close>

definition enrichSignTypedDataRequest ::
  "'e collaborators \<Rightarrow> sign_typed_data_request
     \<Rightarrow> (sign_typed_data_request \<times> sign_typed_data_annotation) promise" where
  "enrichSignTypedDataRequest env signTypedDataRequest =
     (let td = typedData signTypedDataRequest in
      await (if isEIP2612TypedData env td
             then await (indexingService_getCachedAssets env (ETHEREUM env)) (\<lambda>assets.
                    resolved (enrichEIP2612SignTypedDataRequest td
                                (findCorrespondingAsset env td assets)))
             else resolved Unrecognized) (\<lambda>annotation.
      resolved (signTypedDataRequest, annotation)))"

section \<open>An example configuration\<close>

text \<open>
  Concrete collaborators on which the theorems below are instantiated: an asset list with
  one token that has a logo, a name service that knows one address, rejects the lookup of
  another and has no name for the rest, a call data decoder that knows one transfer and
  one approval, and a log decoder that reads the contract address and the recipient of a
  transfer from the fields of the raw log.  Addresses are compared as they are written
  and amounts are left as they are.\<close>

definition ETH :: asset where
  "ETH = \<lparr>symbol = ''ETH'', decimals = 18, contractAddress = None, metadata = None\<rparr>"

definition USDC :: asset where
  "USDC = \<lparr>symbol = ''USDC'', decimals = 6, contractAddress = Some ''0xa0b8'',
           metadata = Some \<lparr>logoURL = Some ''usdc.png''\<rparr>\<rparr>"

definition mainnet :: network where
  "mainnet = \<lparr>networkName = ''Ethereum'', chainID = ''1'', baseAsset = ETH\<rparr>"

definition exampleCollaborators :: "asset_amount collaborators" where
  "exampleCollaborators =
     \<lparr>dateNow = 1000,
      getBlockData = (\<lambda>n h. Fulfilled (Some \<lparr>blockTimestamp_of = 900\<rparr>)),
      getCachedAssets = (\<lambda>n. if n = mainnet then Fulfilled [ETH, USDC] else Fulfilled [ETH]),
      lookUpName = (\<lambda>a n. if a = ''0xb0b'' then Fulfilled (Some ''bob.eth'')
                           else if a = ''0xbad'' then Rejected ''timeout''
                           else Fulfilled None),
      parseERC20Tx = (\<lambda>i.
         if i = ''0xa9059cbb'' then
           Some \<lparr>erc20_name = ''transfer'',
                 args = \<lparr>args_from = None, args_to = ''0xb0b'', args_amount = 5000000,
                         args_spender = [], args_value = 0\<rparr>\<rparr>
         else if i = ''0x095ea7b3'' then
           Some \<lparr>erc20_name = ''approve'',
                 args = \<lparr>args_from = None, args_to = [], args_amount = 0,
                         args_spender = ''0xccc'', args_value = 7\<rparr>\<rparr>
         else None),
      parseLogsForERC20Transfers =
        map (\<lambda>l. \<lparr>log_contractAddress = logContractAddress l, log_amount = 5,
                  log_senderAddress = ''0xa11ce'', log_recipientAddress = logData l\<rparr>),
      isSmartContractFungibleAsset = (\<lambda>a. contractAddress a \<noteq> None),
      sameEVMAddress = (\<lambda>a b. a \<noteq> None \<and> a = b),
      normalizeEVMAddress = (\<lambda>a. a),
      normalizeHexAddress = (\<lambda>a. a),
      enrichAssetAmountWithDecimalValues = (\<lambda>a d. a),
      isEIP2612TypedData = (\<lambda>td. primaryType td = ''Permit''),
      ETHEREUM = mainnet\<rparr>"

definition exampleTransaction :: transaction where
  "exampleTransaction =
     \<lparr>tx_from = ''0xa11ce'', tx_to = Some ''0xb0b'', tx_input = Defined ''0x'',
      tx_value = Some 0, blockHash = None, logs = None\<rparr>"

definition deploymentTransaction :: transaction where
  "deploymentTransaction =
     \<lparr>tx_from = ''0xa11ce'', tx_to = None, tx_input = Defined ''0x6080'',
      tx_value = None, blockHash = Some ''0xb10c'', logs = None\<rparr>"

definition tokenTransaction :: "string \<Rightarrow> transaction" where
  "tokenTransaction i =
     \<lparr>tx_from = ''0xa11ce'', tx_to = Some ''0xa0b8'', tx_input = Defined i,
      tx_value = None, blockHash = None, logs = None\<rparr>"

definition reliableCollaborators :: "asset_amount collaborators" where
  "reliableCollaborators =
     exampleCollaborators
       \<lparr>lookUpName := (\<lambda>a n. if a = ''0xb0b'' then Fulfilled (Some ''bob.eth'')
                             else Fulfilled None)\<rparr>"

definition transferLog :: "string \<Rightarrow> string \<Rightarrow> evm_log" where
  "transferLog c r = \<lparr>logContractAddress = c, logData = r, logTopics = []\<rparr>"

definition loggedTransaction :: "evm_log list \<Rightarrow> transaction" where
  "loggedTransaction ls =
     \<lparr>tx_from = ''0xa11ce'', tx_to = None, tx_input = Defined ''0x6080'',
      tx_value = None, blockHash = Some ''0xb10c'', logs = Some ls\<rparr>"

definition threeLogs :: "evm_log list" where
  "threeLogs = [transferLog ''0xa0b8'' ''0xb0b'', transferLog ''0xdead'' ''0xccc'',
                transferLog ''0xa0b8'' ''0xbad'']"

definition etherToTokenTransaction :: transaction where
  "etherToTokenTransaction =
     \<lparr>tx_from = ''0xa11ce'', tx_to = Some ''0xa0b8'', tx_input = Defined ''0x'',
      tx_value = Some 0, blockHash = None, logs = None\<rparr>"

definition unnamedRecipientTransaction :: "string nullable \<Rightarrow> transaction" where
  "unnamedRecipientTransaction i =
     \<lparr>tx_from = ''0xa11ce'', tx_to = Some ''0xbad'', tx_input = i,
      tx_value = Some 1, blockHash = None, logs = None\<rparr>"

definition unmatchedLogs :: "evm_log list" where
  "unmatchedLogs = [transferLog ''0xdead'' ''0xccc'']"

definition decodedThreeLogs :: "erc20_transfer_log list" where
  "decodedThreeLogs = parseLogsForERC20Transfers exampleCollaborators threeLogs"


definition permitRequest :: "string \<Rightarrow> string \<Rightarrow> sign_typed_data_request" where
  "permitRequest t c =
     \<lparr>account = ''0xa11ce'',
      typedData =
        \<lparr>domain = \<lparr>verifyingContract = Some c, chainId = Some 137\<rparr>,
         primaryType = t,
         message = [(''owner'', ''0xa11ce''), (''spender'', ''0xccc''), (''value'', ''100''),
                    (''nonce'', ''0''), (''deadline'', ''999'')]\<rparr>\<rparr>"



text \<open>
  A second configuration, in which the normaliser folds the case of hexadecimal digits
  and the name service rejects the lookup of the upper-case spelling of an address whose
  lower-case spelling it knows.\<close>

definition lowerHexDigit :: "char \<Rightarrow> char" where
  "lowerHexDigit c =
     (if c = CHR ''A'' then CHR ''a'' else if c = CHR ''B'' then CHR ''b''
      else if c = CHR ''C'' then CHR ''c'' else if c = CHR ''D'' then CHR ''d''
      else if c = CHR ''E'' then CHR ''e'' else if c = CHR ''F'' then CHR ''f'' else c)"

definition caseFoldingCollaborators :: "asset_amount collaborators" where
  "caseFoldingCollaborators =
     exampleCollaborators
       \<lparr>lookUpName := (\<lambda>a n. if a = ''0xb0b'' then Fulfilled (Some ''bob.eth'')
                             else if a = ''0xB0B'' then Rejected ''timeout''
                             else Fulfilled None),
        normalizeEVMAddress := map lowerHexDigit\<rparr>"

definition twoSpellingsLogs :: "evm_log list" where
  "twoSpellingsLogs = [transferLog ''0xa0b8'' ''0xb0b'', transferLog ''0xa0b8'' ''0xB0B'']"

section \<open>Awaiting promises\<close>

lemma await_resolved: "await (resolved x) k = k x"
  by (simp add: await_def resolved_def split: prod.splits)

lemma snd_await_Fulfilled:
  "snd (await p k) = Fulfilled r \<longleftrightarrow> (\<exists>x. snd p = Fulfilled x \<and> snd (k x) = Fulfilled r)"
  by (cases p; cases "snd p") (auto simp: await_def split: prod.splits settled.splits)

lemma snd_resolved: "snd (resolved x) = Fulfilled x"
  by (simp add: resolved_def)

lemma snd_rejected: "snd (rejected e) = Rejected e"
  by (simp add: rejected_def)

lemma snd_lookUpName: "snd (nameService_lookUpName env a n) = lookUpName env a n"
  by (simp add: nameService_lookUpName_def)

lemma snd_getCachedAssets: "snd (indexingService_getCachedAssets env n) = getCachedAssets env n"
  by (simp add: indexingService_getCachedAssets_def)

lemmas snd_simps = snd_await_Fulfilled snd_resolved snd_rejected snd_lookUpName snd_getCachedAssets

lemma primary_Some:
  "snd (primaryAnnotation env net tx dd t b) = Fulfilled r \<Longrightarrow> \<exists>a. r = Some a"
  unfolding primaryAnnotation_def
  by (auto simp: snd_simps Let_def split: option.splits if_splits)

lemma primary_deployment:
  "tx_to tx = None \<Longrightarrow>
   primaryAnnotation env net tx dd t b =
     resolved (Some (TransactionAnnotation t (timestampOf b) None ContractDeployment None))"
  by (simp add: primaryAnnotation_def)

lemma primary_empty_input:
  assumes "tx_to tx = Some to" "tx_input tx \<in> {Undefined, Null, Defined ''0x''}"
    and "snd (primaryAnnotation env net tx dd t b) = Fulfilled r"
  shows "\<exists>n. lookUpName env to net = Fulfilled n \<and>
           r = Some (TransactionAnnotation t (timestampOf b) None
                 (case tx_value tx of
                    Some v \<Rightarrow> AssetTransfer (enrichAssetAmountWithDecimalValues env
                                 \<lparr>asset = baseAsset net, amount = v\<rparr> dd) (tx_from tx) to n
                  | None \<Rightarrow> ContractInteraction n) None)"
  using assms unfolding primaryAnnotation_def
  by (auto simp: snd_simps split: option.splits)

lemma primary_call_data:
  assumes "tx_to tx = Some to" "tx_input tx = Defined i" "i \<noteq> ''0x''"
    and "snd (primaryAnnotation env net tx dd t b) = Fulfilled r"
  shows "\<exists>assets. getCachedAssets env net = Fulfilled assets \<and>
          (let m = findMatchingFungibleAsset env assets to; e = parseERC20Tx env i in
           if m \<noteq> None \<and> e \<noteq> None \<and>
              (erc20_name (the e) = ''transfer'' \<or> erc20_name (the e) = ''transferFrom'')
           then \<exists>n. lookUpName env (args_to (args (the e))) net = Fulfilled n \<and>
                  r = Some (TransactionAnnotation t (timestampOf b) (logoURLOf m)
                        (AssetTransfer (enrichAssetAmountWithDecimalValues env
                            \<lparr>asset = the m, amount = args_amount (args (the e))\<rparr> dd)
                          (case args_from (args (the e)) of Some f \<Rightarrow> f | None \<Rightarrow> tx_from tx)
                          (args_to (args (the e))) n) None)
           else if m \<noteq> None \<and> e \<noteq> None \<and> erc20_name (the e) = ''approve''
           then \<exists>n. lookUpName env (args_spender (args (the e))) net = Fulfilled n \<and>
                  r = Some (TransactionAnnotation t (timestampOf b) (logoURLOf m)
                        (AssetApproval (enrichAssetAmountWithDecimalValues env
                            \<lparr>asset = the m, amount = args_value (args (the e))\<rparr> dd)
                          (args_spender (args (the e))) n) None)
           else \<exists>n. lookUpName env to net = Fulfilled n \<and>
                  r = Some (TransactionAnnotation t (timestampOf b) (logoURLOf m)
                        (ContractInteraction n) None))"
  using assms unfolding primaryAnnotation_def
  by (auto simp: snd_simps Let_def split: if_splits)

lemma attach_keeps:
  assumes "snd (attachSubannotations env net tx dd t b (Some a)) = Fulfilled r"
  shows "\<exists>s. r = Some (TransactionAnnotation (timestamp a) (blockTimestamp a)
                 (transactionLogoURL a) (variant a) s)"
  using assms unfolding attachSubannotations_def
  by (cases a) (auto simp: snd_simps Let_def split: option.splits if_splits)

lemmas example_defs =
  exampleCollaborators_def mainnet_def ETH_def USDC_def exampleTransaction_def
  deploymentTransaction_def tokenTransaction_def

lemmas model_defs =
  resolveTransactionAnnotation_def primaryAnnotation_def attachSubannotations_def
  lookUpNamesByAddress_def resolveSubannotations_def transferLogAddresses_def setToArray_def
  fromEntries_def findMatchingFungibleAsset_def logoURLOf_def timestampOf_def truthy_def
  await_def resolved_def rejected_def allSettled_def chainService_getBlockData_def
  indexingService_getCachedAssets_def nameService_lookUpName_def

section \<open>The decision order of the primary annotation\<close>

text \<open>
  Claim C1.  Whenever \<^verbatim>\<open>resolveTransactionAnnotation\<close> fulfils, it fulfils with an
  annotation whose variant is chosen by the first rule that applies: (1) without a
  recipient, a contract deployment; (2) with input \<^verbatim>\<open>undefined\<close>, \<^verbatim>\<open>null\<close> or
  \<^verbatim>\<open>"0x"\<close>, a transfer of the base asset of the network from the sender to the
  recipient when there is a value, a contract interaction otherwise; (3) with input
  that decodes to \<^verbatim>\<open>transfer\<close> or \<^verbatim>\<open>transferFrom\<close> and a recipient that matches a
  known fungible asset, an asset transfer with the decoded recipient and amount, from the
  decoded sender when there is one and from the sender of the transaction otherwise;
  (4) with input that decodes to \<^verbatim>\<open>approve\<close> and a matched asset, an asset approval
  with the decoded spender and amount; (5) a contract interaction otherwise.\<close>

theorem resolveTransactionAnnotation_decision_order:
  assumes "snd (resolveTransactionAnnotation env net tx dd) = Fulfilled r"
  shows "\<exists>a. r = Some a \<and>
     (tx_to tx = None \<longrightarrow> variant a = ContractDeployment) \<and>
     (\<forall>to. tx_to tx = Some to \<longrightarrow>
        (tx_input tx \<in> {Undefined, Null, Defined ''0x''} \<longrightarrow>
           (\<forall>v. tx_value tx = Some v \<longrightarrow>
              (\<exists>n. variant a = AssetTransfer
                 (enrichAssetAmountWithDecimalValues env \<lparr>asset = baseAsset net, amount = v\<rparr> dd)
                 (tx_from tx) to n)) \<and>
           (tx_value tx = None \<longrightarrow> (\<exists>n. variant a = ContractInteraction n))) \<and>
        (\<forall>i. tx_input tx = Defined i \<and> i \<noteq> ''0x'' \<longrightarrow>
           (\<exists>assets. getCachedAssets env net = Fulfilled assets \<and>
              (let m = findMatchingFungibleAsset env assets to; e = parseERC20Tx env i in
               if m \<noteq> None \<and> e \<noteq> None \<and>
                  (erc20_name (the e) = ''transfer'' \<or> erc20_name (the e) = ''transferFrom'')
               then \<exists>n. variant a = AssetTransfer
                      (enrichAssetAmountWithDecimalValues env
                         \<lparr>asset = the m, amount = args_amount (args (the e))\<rparr> dd)
                      (case args_from (args (the e)) of Some f \<Rightarrow> f | None \<Rightarrow> tx_from tx)
                      (args_to (args (the e))) n
               else if m \<noteq> None \<and> e \<noteq> None \<and> erc20_name (the e) = ''approve''
               then \<exists>n. variant a = AssetApproval
                      (enrichAssetAmountWithDecimalValues env
                         \<lparr>asset = the m, amount = args_value (args (the e))\<rparr> dd)
                      (args_spender (args (the e))) n
               else \<exists>n. variant a = ContractInteraction n))))"
proof -
  from assms obtain blk pa where
    pa: "snd (primaryAnnotation env net tx dd (dateNow env) blk) = Fulfilled pa" and
    at: "snd (attachSubannotations env net tx dd (dateNow env) blk pa) = Fulfilled r"
    unfolding resolveTransactionAnnotation_def Let_def snd_await_Fulfilled by blast
  from primary_Some [OF pa] obtain p where p: "pa = Some p" by blast
  from attach_keeps [OF at [unfolded p]] obtain a where
    a: "r = Some a" and v: "variant a = variant p"
    by auto
  have 1: "tx_to tx = None \<longrightarrow> variant a = ContractDeployment"
    using pa p v by (auto simp: primary_deployment snd_resolved)
  have 2: "tx_input tx \<in> {Undefined, Null, Defined ''0x''} \<longrightarrow>
           (\<forall>v. tx_value tx = Some v \<longrightarrow>
              (\<exists>n. variant a = AssetTransfer
                 (enrichAssetAmountWithDecimalValues env \<lparr>asset = baseAsset net, amount = v\<rparr> dd)
                 (tx_from tx) to n)) \<and>
           (tx_value tx = None \<longrightarrow> (\<exists>n. variant a = ContractInteraction n))"
    if "tx_to tx = Some to" for to
    using primary_empty_input [OF that _ pa] p v by auto
  have 3: "\<exists>assets. getCachedAssets env net = Fulfilled assets \<and>
              (let m = findMatchingFungibleAsset env assets to; e = parseERC20Tx env i in
               if m \<noteq> None \<and> e \<noteq> None \<and>
                  (erc20_name (the e) = ''transfer'' \<or> erc20_name (the e) = ''transferFrom'')
               then \<exists>n. variant a = AssetTransfer
                      (enrichAssetAmountWithDecimalValues env
                         \<lparr>asset = the m, amount = args_amount (args (the e))\<rparr> dd)
                      (case args_from (args (the e)) of Some f \<Rightarrow> f | None \<Rightarrow> tx_from tx)
                      (args_to (args (the e))) n
               else if m \<noteq> None \<and> e \<noteq> None \<and> erc20_name (the e) = ''approve''
               then \<exists>n. variant a = AssetApproval
                      (enrichAssetAmountWithDecimalValues env
                         \<lparr>asset = the m, amount = args_value (args (the e))\<rparr> dd)
                      (args_spender (args (the e))) n
               else \<exists>n. variant a = ContractInteraction n)"
    if "tx_to tx = Some to" "tx_input tx = Defined i" "i \<noteq> ''0x''" for to i
  proof -
    from primary_call_data [OF that pa] obtain assets where
      g: "getCachedAssets env net = Fulfilled assets" and
      c: "(let m = findMatchingFungibleAsset env assets to; e = parseERC20Tx env i in
           if m \<noteq> None \<and> e \<noteq> None \<and>
              (erc20_name (the e) = ''transfer'' \<or> erc20_name (the e) = ''transferFrom'')
           then \<exists>n. lookUpName env (args_to (args (the e))) net = Fulfilled n \<and>
                  pa = Some (TransactionAnnotation (dateNow env) (timestampOf blk) (logoURLOf m)
                        (AssetTransfer (enrichAssetAmountWithDecimalValues env
                            \<lparr>asset = the m, amount = args_amount (args (the e))\<rparr> dd)
                          (case args_from (args (the e)) of Some f \<Rightarrow> f | None \<Rightarrow> tx_from tx)
                          (args_to (args (the e))) n) None)
           else if m \<noteq> None \<and> e \<noteq> None \<and> erc20_name (the e) = ''approve''
           then \<exists>n. lookUpName env (args_spender (args (the e))) net = Fulfilled n \<and>
                  pa = Some (TransactionAnnotation (dateNow env) (timestampOf blk) (logoURLOf m)
                        (AssetApproval (enrichAssetAmountWithDecimalValues env
                            \<lparr>asset = the m, amount = args_value (args (the e))\<rparr> dd)
                          (args_spender (args (the e))) n) None)
           else \<exists>n. lookUpName env to net = Fulfilled n \<and>
                  pa = Some (TransactionAnnotation (dateNow env) (timestampOf blk) (logoURLOf m)
                        (ContractInteraction n) None))"
      by blast
    show ?thesis
      apply (rule exI [of _ assets])
      using g c p v by (auto simp: Let_def split: if_splits)
  qed
  show ?thesis
    apply (rule exI [of _ a])
    apply (intro conjI allI impI)
    subgoal by (rule a)
    subgoal using 1 by blast
    subgoal using 2 by blast
    subgoal using 2 by blast
    subgoal using 3 by blast
    done
qed


theorem resolveTransactionAnnotation_decision_order_witness:
  "(\<exists>r. snd (resolveTransactionAnnotation exampleCollaborators mainnet deploymentTransaction 2)
          = Fulfilled r \<and>
        (\<exists>a. r = Some a \<and> variant a = ContractDeployment)) \<and>
   (\<exists>r. snd (resolveTransactionAnnotation exampleCollaborators mainnet exampleTransaction 2)
          = Fulfilled r \<and>
        (\<exists>a n. r = Some a \<and>
           variant a = AssetTransfer \<lparr>asset = ETH, amount = 0\<rparr> ''0xa11ce'' ''0xb0b'' n)) \<and>
   (\<exists>r. snd (resolveTransactionAnnotation exampleCollaborators mainnet
               (tokenTransaction ''0xa9059cbb'') 2) = Fulfilled r \<and>
        (\<exists>a n. r = Some a \<and>
           variant a = AssetTransfer \<lparr>asset = USDC, amount = 5000000\<rparr> ''0xa11ce'' ''0xb0b'' n)) \<and>
   (\<exists>r. snd (resolveTransactionAnnotation exampleCollaborators mainnet
               (tokenTransaction ''0x095ea7b3'') 2) = Fulfilled r \<and>
        (\<exists>a n. r = Some a \<and>
           variant a = AssetApproval \<lparr>asset = USDC, amount = 7\<rparr> ''0xccc'' n)) \<and>
   (\<exists>r. snd (resolveTransactionAnnotation exampleCollaborators mainnet
               (tokenTransaction ''0xdeadbeef'') 2) = Fulfilled r \<and>
        (\<exists>a n. r = Some a \<and> variant a = ContractInteraction n))"
proof -
  have d: "snd (resolveTransactionAnnotation exampleCollaborators mainnet deploymentTransaction 2)
             = Fulfilled (Some (TransactionAnnotation 1000 (Some 900) None ContractDeployment None))"
    by (simp add: model_defs example_defs)
  have e: "snd (resolveTransactionAnnotation exampleCollaborators mainnet exampleTransaction 2)
             = Fulfilled (Some (TransactionAnnotation 1000 None None
                 (AssetTransfer \<lparr>asset = ETH, amount = 0\<rparr> ''0xa11ce'' ''0xb0b'' (Some ''bob.eth''))
                 None))"
    by (simp add: model_defs example_defs)
  have t: "snd (resolveTransactionAnnotation exampleCollaborators mainnet
                 (tokenTransaction ''0xa9059cbb'') 2)
             = Fulfilled (Some (TransactionAnnotation 1000 None (Some ''usdc.png'')
                 (AssetTransfer \<lparr>asset = USDC, amount = 5000000\<rparr> ''0xa11ce'' ''0xb0b''
                    (Some ''bob.eth'')) None))"
    by (simp add: model_defs example_defs)
  have a: "snd (resolveTransactionAnnotation exampleCollaborators mainnet
                 (tokenTransaction ''0x095ea7b3'') 2)
             = Fulfilled (Some (TransactionAnnotation 1000 None (Some ''usdc.png'')
                 (AssetApproval \<lparr>asset = USDC, amount = 7\<rparr> ''0xccc'' None) None))"
    by (simp add: model_defs example_defs)
  have c: "snd (resolveTransactionAnnotation exampleCollaborators mainnet
                 (tokenTransaction ''0xdeadbeef'') 2)
             = Fulfilled (Some (TransactionAnnotation 1000 None (Some ''usdc.png'')
                 (ContractInteraction None) None))"
    by (simp add: model_defs example_defs)
  note w = resolveTransactionAnnotation_decision_order
  have 1: "\<exists>r. snd (resolveTransactionAnnotation exampleCollaborators mainnet deploymentTransaction 2)
          = Fulfilled r \<and> (\<exists>a. r = Some a \<and> variant a = ContractDeployment)"
    using w [OF d] by (simp add: d)
  have 2: "\<exists>r. snd (resolveTransactionAnnotation exampleCollaborators mainnet exampleTransaction 2)
          = Fulfilled r \<and>
        (\<exists>a n. r = Some a \<and>
           variant a = AssetTransfer \<lparr>asset = ETH, amount = 0\<rparr> ''0xa11ce'' ''0xb0b'' n)"
    using w [OF e] by (simp add: e)
  have 3: "\<exists>r. snd (resolveTransactionAnnotation exampleCollaborators mainnet
               (tokenTransaction ''0xa9059cbb'') 2) = Fulfilled r \<and>
        (\<exists>a n. r = Some a \<and>
           variant a = AssetTransfer \<lparr>asset = USDC, amount = 5000000\<rparr> ''0xa11ce'' ''0xb0b'' n)"
    using w [OF t] by (simp add: t)
  have 4: "\<exists>r. snd (resolveTransactionAnnotation exampleCollaborators mainnet
               (tokenTransaction ''0x095ea7b3'') 2) = Fulfilled r \<and>
        (\<exists>a n. r = Some a \<and>
           variant a = AssetApproval \<lparr>asset = USDC, amount = 7\<rparr> ''0xccc'' n)"
    using w [OF a] by (simp add: a)
  have 5: "\<exists>r. snd (resolveTransactionAnnotation exampleCollaborators mainnet
               (tokenTransaction ''0xdeadbeef'') 2) = Fulfilled r \<and>
        (\<exists>a n. r = Some a \<and> variant a = ContractInteraction n)"
    using w [OF c] by (simp add: c)
  show ?thesis
    using 1 2 3 4 5 by (simp only:)
qed

section \<open>Totality of the classification\<close>

lemma snd_await_eq: "snd p = Fulfilled x \<Longrightarrow> snd (await p k) = snd (k x)"
  by (cases p) (auto simp: await_def split: prod.splits)

lemma snd_allSettled: "snd (allSettled ps) = Fulfilled (map snd ps)"
  by (simp add: allSettled_def)

lemma snd_lookUpNamesByAddress:
  "snd (lookUpNamesByAddress env net ls) =
     Fulfilled (fromEntries (fulfilledNames
       (map (\<lambda>address. snd (await (nameService_lookUpName env address net)
                                (\<lambda>r. resolved (normalizeEVMAddress env address, r))))
            (transferLogAddresses ls))))"
  by (simp add: lookUpNamesByAddress_def snd_await_eq [OF snd_allSettled] snd_resolved comp_def)

lemma resolve_Fulfilled_Some:
  assumes "snd (resolveTransactionAnnotation env net tx dd) = Fulfilled r"
  shows "\<exists>a. r = Some a"
proof -
  from assms obtain blk pa where
    pa: "snd (primaryAnnotation env net tx dd (dateNow env) blk) = Fulfilled pa" and
    at: "snd (attachSubannotations env net tx dd (dateNow env) blk pa) = Fulfilled r"
    unfolding resolveTransactionAnnotation_def Let_def snd_await_Fulfilled by blast
  from primary_Some [OF pa] obtain p where p: "pa = Some p" by blast
  from attach_keeps [OF at [unfolded p]] show ?thesis by blast
qed

lemma await_lookUpName_fulfils:
  assumes "\<exists>n. lookUpName env addr net = Fulfilled n"
    and "\<And>x. \<exists>a. snd (k x) = Fulfilled (Some a)"
  shows "\<exists>a. snd (await (nameService_lookUpName env addr net) k) = Fulfilled (Some a)"
  using assms by (auto simp: snd_simps)

lemma primary_fulfils:
  assumes g: "getCachedAssets env net = Fulfilled assets"
    and n: "\<And>a. \<exists>n. lookUpName env a net = Fulfilled n"
  shows "\<exists>a. snd (primaryAnnotation env net tx dd t b) = Fulfilled (Some a)"
  unfolding primaryAnnotation_def
  by (auto simp: snd_await_eq [OF snd_getCachedAssets [of env net, unfolded g]] snd_resolved Let_def
        split: option.splits intro!: await_lookUpName_fulfils n)

lemma attach_fulfils:
  assumes g: "getCachedAssets env net = Fulfilled assets"
  shows "\<exists>a'. snd (attachSubannotations env net tx dd t b (Some a)) = Fulfilled (Some a')"
  unfolding attachSubannotations_def
  by (simp add: snd_await_eq [OF snd_getCachedAssets [of env net, unfolded g]]
        snd_await_eq [OF snd_lookUpNamesByAddress] snd_resolved Let_def split: option.splits)

text \<open>
  Claim C2.  \<^verbatim>\<open>resolveTransactionAnnotation\<close> never fulfils with \<^verbatim>\<open>undefined\<close>, and
  when no collaborator call rejects it fulfils with an annotation, which is of exactly
  one of the four variants contract deployment, contract interaction, asset approval
  and asset transfer (the constructors of \<open>annotation_variant\<close>).\<close>

theorem resolveTransactionAnnotation_total:
  "snd (resolveTransactionAnnotation env net tx dd) \<noteq> Fulfilled None \<and>
   ((\<forall>h. \<exists>b. getBlockData env net h = Fulfilled b) \<and>
    (\<exists>assets. getCachedAssets env net = Fulfilled assets) \<and>
    (\<forall>address. \<exists>n. lookUpName env address net = Fulfilled n) \<longrightarrow>
    (\<exists>a. snd (resolveTransactionAnnotation env net tx dd) = Fulfilled (Some a) \<and>
         (variant a = ContractDeployment \<or>
          (\<exists>n. variant a = ContractInteraction n) \<or>
          (\<exists>e s n. variant a = AssetApproval e s n) \<or>
          (\<exists>e s r n. variant a = AssetTransfer e s r n))))"
proof (intro conjI impI)
  show "snd (resolveTransactionAnnotation env net tx dd) \<noteq> Fulfilled None"
    using resolve_Fulfilled_Some [of env net tx dd None] by blast
next
  assume h: "(\<forall>h. \<exists>b. getBlockData env net h = Fulfilled b) \<and>
    (\<exists>assets. getCachedAssets env net = Fulfilled assets) \<and>
    (\<forall>address. \<exists>n. lookUpName env address net = Fulfilled n)"
  then obtain assets where g: "getCachedAssets env net = Fulfilled assets" by blast
  from h have n: "\<And>a. \<exists>n. lookUpName env a net = Fulfilled n" by blast
  have "\<exists>blk. snd (if truthy (blockHash tx)
             then chainService_getBlockData env net (the (blockHash tx))
             else resolved None) = Fulfilled blk"
    using h by (auto simp: chainService_getBlockData_def snd_resolved)
  then obtain blk where b: "snd (if truthy (blockHash tx)
             then chainService_getBlockData env net (the (blockHash tx))
             else resolved None) = Fulfilled blk" by blast
  from primary_fulfils [OF g n] obtain p where
    p: "snd (primaryAnnotation env net tx dd (dateNow env) blk) = Fulfilled (Some p)" by blast
  from attach_fulfils [OF g] obtain a where
    a: "snd (attachSubannotations env net tx dd (dateNow env) blk (Some p)) = Fulfilled (Some a)"
    by blast
  have "snd (resolveTransactionAnnotation env net tx dd) = Fulfilled (Some a)"
    unfolding resolveTransactionAnnotation_def Let_def
    by (simp add: snd_await_eq [OF b] snd_await_eq [OF p] a)
  moreover have "variant a = ContractDeployment \<or>
          (\<exists>n. variant a = ContractInteraction n) \<or>
          (\<exists>e s n. variant a = AssetApproval e s n) \<or>
          (\<exists>e s r n. variant a = AssetTransfer e s r n)"
    by (cases "variant a") auto
  ultimately show "\<exists>a. snd (resolveTransactionAnnotation env net tx dd) = Fulfilled (Some a) \<and>
         (variant a = ContractDeployment \<or>
          (\<exists>n. variant a = ContractInteraction n) \<or>
          (\<exists>e s n. variant a = AssetApproval e s n) \<or>
          (\<exists>e s r n. variant a = AssetTransfer e s r n))"
    by blast
qed


theorem resolveTransactionAnnotation_total_witness:
  "((\<forall>h. \<exists>b. getBlockData reliableCollaborators mainnet h = Fulfilled b) \<and>
    (\<exists>assets. getCachedAssets reliableCollaborators mainnet = Fulfilled assets) \<and>
    (\<forall>address. \<exists>n. lookUpName reliableCollaborators address mainnet = Fulfilled n)) \<and>
   (\<exists>a. snd (resolveTransactionAnnotation reliableCollaborators mainnet
               (tokenTransaction ''0xdeadbeef'') 2) = Fulfilled (Some a) \<and>
        (variant a = ContractDeployment \<or>
         (\<exists>n. variant a = ContractInteraction n) \<or>
         (\<exists>e s n. variant a = AssetApproval e s n) \<or>
         (\<exists>e s r n. variant a = AssetTransfer e s r n)))"
proof -
  have h: "(\<forall>h. \<exists>b. getBlockData reliableCollaborators mainnet h = Fulfilled b) \<and>
    (\<exists>assets. getCachedAssets reliableCollaborators mainnet = Fulfilled assets) \<and>
    (\<forall>address. \<exists>n. lookUpName reliableCollaborators address mainnet = Fulfilled n)"
    by (simp add: reliableCollaborators_def exampleCollaborators_def)
  show ?thesis
    using resolveTransactionAnnotation_total
      [of reliableCollaborators mainnet "tokenTransaction ''0xdeadbeef''" 2] h
    by blast
qed

section \<open>Subannotations from the logs\<close>

lemma primary_subannotations:
  "snd (primaryAnnotation env net tx dd t b) = Fulfilled (Some p) \<Longrightarrow> subannotations p = None"
  unfolding primaryAnnotation_def
  by (auto simp: snd_simps Let_def split: option.splits if_splits)

lemma length_resolveSubannotations:
  "length (resolveSubannotations env assets names dd t b ls) =
     length (filter (\<lambda>l. findMatchingFungibleAsset env assets (log_contractAddress l) \<noteq> None) ls)"
  by (induction ls) (auto simp: resolveSubannotations_def Let_def split: option.splits)

lemma attach_logs:
  assumes "logs tx = Some ls"
    and "snd (attachSubannotations env net tx dd t b (Some p)) = Fulfilled r"
  shows "\<exists>assets names. getCachedAssets env net = Fulfilled assets \<and>
           snd (lookUpNamesByAddress env net (parseLogsForERC20Transfers env ls)) = Fulfilled names \<and>
           (let subs = resolveSubannotations env assets names dd t b
                         (parseLogsForERC20Transfers env ls)
            in r = Some (TransactionAnnotation (timestamp p) (blockTimestamp p)
                     (transactionLogoURL p) (variant p)
                     (if subs = [] then subannotations p else Some subs)))"
  using assms unfolding attachSubannotations_def
  by (cases p) (auto simp: snd_simps Let_def split: option.splits if_splits)

lemmas log_example_defs = loggedTransaction_def transferLog_def threeLogs_def

lemma threeLogs_resolved:
  "resolveTransactionAnnotation exampleCollaborators mainnet (loggedTransaction threeLogs) 2 =
     ([GetBlockData mainnet ''0xb10c'', GetCachedAssets mainnet, LookUpName ''0xb0b'' mainnet,
       LookUpName ''0xccc'' mainnet, LookUpName ''0xbad'' mainnet],
      Fulfilled (Some (TransactionAnnotation 1000 (Some 900) None ContractDeployment
        (Some [TransactionAnnotation 1000 (Some 900) None
                 (AssetTransfer \<lparr>asset = USDC, amount = 5\<rparr> ''0xa11ce'' ''0xb0b''
                    (Some ''bob.eth'')) None,
               TransactionAnnotation 1000 (Some 900) None
                 (AssetTransfer \<lparr>asset = USDC, amount = 5\<rparr> ''0xa11ce'' ''0xbad'' None)
                 None]))))"
  by (simp add: model_defs example_defs log_example_defs)

text \<open>
  Claim C3.  For a transaction with logs whose resolution fulfils: when \<open>M\<close> of the
  \<open>N\<close> decoded ERC-20 transfer logs have a contract address that matches a known
  fungible asset (\<open>M \<le> N\<close>), the annotation has a list of exactly \<open>M\<close> subannotations
  when \<open>M > 0\<close> and no \<open>subannotations\<close> field when \<open>M = 0\<close>; the logs that do not
  match contribute nothing and cause no rejection.\<close>

theorem subannotations_count:
  assumes "logs tx = Some ls"
    and "snd (resolveTransactionAnnotation env net tx dd) = Fulfilled r"
  shows "\<exists>a assets. r = Some a \<and> getCachedAssets env net = Fulfilled assets \<and>
     (let decoded = parseLogsForERC20Transfers env ls;
          M = length (filter (\<lambda>l. findMatchingFungibleAsset env assets (log_contractAddress l)
                                  \<noteq> None) decoded)
      in M \<le> length decoded \<and>
         (case subannotations a of None \<Rightarrow> M = 0 | Some subs \<Rightarrow> 0 < M \<and> length subs = M))"
proof -
  from assms(2) obtain blk pa where
    pa: "snd (primaryAnnotation env net tx dd (dateNow env) blk) = Fulfilled pa" and
    at: "snd (attachSubannotations env net tx dd (dateNow env) blk pa) = Fulfilled r"
    unfolding resolveTransactionAnnotation_def Let_def snd_await_Fulfilled by blast
  from primary_Some [OF pa] obtain p where p: "pa = Some p" by blast
  have s: "subannotations p = None"
    using primary_subannotations pa p by blast
  from attach_logs [OF assms(1) at [unfolded p]] obtain assets names where
    g: "getCachedAssets env net = Fulfilled assets" and
    r: "r = Some (TransactionAnnotation (timestamp p) (blockTimestamp p)
                     (transactionLogoURL p) (variant p)
                     (if resolveSubannotations env assets names dd (dateNow env) blk
                           (parseLogsForERC20Transfers env ls) = []
                      then subannotations p
                      else Some (resolveSubannotations env assets names dd (dateNow env) blk
                           (parseLogsForERC20Transfers env ls))))"
    unfolding Let_def by blast
  show ?thesis
    using g r s
      length_resolveSubannotations [of env assets names dd "dateNow env" blk
        "parseLogsForERC20Transfers env ls"]
    by (auto simp: Let_def)
qed


theorem subannotations_count_witness:
  "logs (loggedTransaction threeLogs) = Some threeLogs \<and>
   (\<exists>a. snd (resolveTransactionAnnotation exampleCollaborators mainnet
               (loggedTransaction threeLogs) 2) = Fulfilled (Some a) \<and>
        length (parseLogsForERC20Transfers exampleCollaborators threeLogs) = 3 \<and>
        (\<exists>subs. subannotations a = Some subs \<and> length subs = 2))"
proof -
  have l: "logs (loggedTransaction threeLogs) = Some threeLogs"
    by (simp add: loggedTransaction_def)
  have r: "snd (resolveTransactionAnnotation exampleCollaborators mainnet
               (loggedTransaction threeLogs) 2) =
      Fulfilled (Some (TransactionAnnotation 1000 (Some 900) None ContractDeployment
        (Some [TransactionAnnotation 1000 (Some 900) None
                 (AssetTransfer \<lparr>asset = USDC, amount = 5\<rparr> ''0xa11ce'' ''0xb0b''
                    (Some ''bob.eth'')) None,
               TransactionAnnotation 1000 (Some 900) None
                 (AssetTransfer \<lparr>asset = USDC, amount = 5\<rparr> ''0xa11ce'' ''0xbad'' None)
                 None])))"
    by (simp add: threeLogs_resolved)
  have n: "length (parseLogsForERC20Transfers exampleCollaborators threeLogs) = 3"
    by (simp add: exampleCollaborators_def threeLogs_def)
  show ?thesis
    using subannotations_count [OF l r] by (simp add: l r n)
qed

section \<open>The empty-input branch\<close>

text \<open>
  Claim C10.  With a recipient and with input \<^verbatim>\<open>undefined\<close>, \<^verbatim>\<open>null\<close> or
  \<^verbatim>\<open>"0x"\<close>, the choice depends only on whether \<^verbatim>\<open>value\<close> is defined: every
  defined value, zero included, gives an asset transfer of that many units of the base
  asset, and the annotation is a contract interaction exactly when the value is
  undefined.\<close>

theorem empty_input_value_presence:
  assumes "tx_to tx = Some to"
    and "tx_input tx \<in> {Undefined, Null, Defined ''0x''}"
    and "snd (resolveTransactionAnnotation env net tx dd) = Fulfilled r"
  shows "\<exists>a n. r = Some a \<and>
     (\<forall>v. tx_value tx = Some v \<longrightarrow>
        variant a = AssetTransfer
          (enrichAssetAmountWithDecimalValues env \<lparr>asset = baseAsset net, amount = v\<rparr> dd)
          (tx_from tx) to n) \<and>
     (tx_value tx = None \<longrightarrow> variant a = ContractInteraction n) \<and>
     ((\<exists>n'. variant a = ContractInteraction n') \<longleftrightarrow> tx_value tx = None)"
proof -
  from assms(3) obtain blk pa where
    pa: "snd (primaryAnnotation env net tx dd (dateNow env) blk) = Fulfilled pa" and
    at: "snd (attachSubannotations env net tx dd (dateNow env) blk pa) = Fulfilled r"
    unfolding resolveTransactionAnnotation_def Let_def snd_await_Fulfilled by blast
  from primary_empty_input [OF assms(1,2) pa] obtain n where
    p: "pa = Some (TransactionAnnotation (dateNow env) (timestampOf blk) None
                 (case tx_value tx of
                    Some v \<Rightarrow> AssetTransfer (enrichAssetAmountWithDecimalValues env
                                 \<lparr>asset = baseAsset net, amount = v\<rparr> dd) (tx_from tx) to n
                  | None \<Rightarrow> ContractInteraction n) None)"
    by blast
  from attach_keeps [OF at [unfolded p]] obtain a where
    a: "r = Some a" and
    v: "variant a = (case tx_value tx of
                    Some v \<Rightarrow> AssetTransfer (enrichAssetAmountWithDecimalValues env
                                 \<lparr>asset = baseAsset net, amount = v\<rparr> dd) (tx_from tx) to n
                  | None \<Rightarrow> ContractInteraction n)"
    by auto
  show ?thesis
    using a v by (cases "tx_value tx") auto
qed

theorem empty_input_value_presence_witness:
  "tx_to exampleTransaction = Some ''0xb0b'' \<and>
   tx_input exampleTransaction \<in> {Undefined, Null, Defined ''0x''} \<and>
   tx_value exampleTransaction = Some 0 \<and>
   (\<exists>a n. snd (resolveTransactionAnnotation exampleCollaborators mainnet exampleTransaction 2) =
            Fulfilled (Some a) \<and>
          variant a = AssetTransfer \<lparr>asset = ETH, amount = 0\<rparr> ''0xa11ce'' ''0xb0b'' n)"
proof -
  have t: "tx_to exampleTransaction = Some ''0xb0b''"
    and i: "tx_input exampleTransaction \<in> {Undefined, Null, Defined ''0x''}"
    and v: "tx_value exampleTransaction = Some 0"
    by (simp_all add: exampleTransaction_def)
  have r: "snd (resolveTransactionAnnotation exampleCollaborators mainnet exampleTransaction 2)
             = Fulfilled (Some (TransactionAnnotation 1000 None None
                 (AssetTransfer \<lparr>asset = ETH, amount = 0\<rparr> ''0xa11ce'' ''0xb0b'' (Some ''bob.eth''))
                 None))"
    by (simp add: model_defs example_defs)
  show ?thesis
    using empty_input_value_presence [OF t i r] i by (simp add: t v r)
qed

section \<open>The logo URL\<close>

text \<open>
  Claim C7, as stated, fails for a transaction without input data: ether sent with input
  \<^verbatim>\<open>"0x"\<close> to the contract of a known asset that has a logo is annotated in the
  empty-input branch, whose annotation objects have no \<open>transactionLogoURL\<close>.\<close>

theorem logo_without_input_counterexample:
  "tx_to etherToTokenTransaction = Some ''0xa0b8'' \<and>
   getCachedAssets exampleCollaborators mainnet = Fulfilled [ETH, USDC] \<and>
   findMatchingFungibleAsset exampleCollaborators [ETH, USDC] ''0xa0b8'' = Some USDC \<and>
   logoURLOf (Some USDC) = Some ''usdc.png'' \<and>
   snd (resolveTransactionAnnotation exampleCollaborators mainnet etherToTokenTransaction 2) =
     Fulfilled (Some (TransactionAnnotation 1000 None None
       (AssetTransfer \<lparr>asset = ETH, amount = 0\<rparr> ''0xa11ce'' ''0xa0b8'' None) None)) \<and>
   transactionLogoURL (TransactionAnnotation 1000 None None
       (AssetTransfer \<lparr>asset = ETH, amount = 0\<rparr> ''0xa11ce'' ''0xa0b8'' None) None) = None"
  by (simp add: model_defs example_defs etherToTokenTransaction_def)

text \<open>
  Claim C7, amended.  For a transaction with input data other than \<^verbatim>\<open>"0x"\<close> whose
  recipient matches a known fungible asset (the first match in the asset list) that has a
  logo URL, every annotation produced carries that URL as \<open>transactionLogoURL\<close>,
  whatever the input decodes to; in particular the contract-interaction fallback, taken
  when the input does not decode to \<^verbatim>\<open>transfer\<close>, \<^verbatim>\<open>transferFrom\<close> or
  \<^verbatim>\<open>approve\<close>, carries it.  For a transaction with a recipient and with input
  \<^verbatim>\<open>undefined\<close>, \<^verbatim>\<open>null\<close> or \<^verbatim>\<open>"0x"\<close>, every annotation produced has no
  \<open>transactionLogoURL\<close>, whatever the asset list holds.\<close>

theorem logo_independent_of_decode:
  assumes "tx_to tx = Some to"
    and "snd (resolveTransactionAnnotation env net tx dd) = Fulfilled r"
  shows "\<exists>a. r = Some a \<and>
     (\<forall>i assets m md u.
        tx_input tx = Defined i \<and> i \<noteq> ''0x'' \<and>
        getCachedAssets env net = Fulfilled assets \<and>
        findMatchingFungibleAsset env assets to = Some m \<and>
        metadata m = Some md \<and> logoURL md = Some u \<longrightarrow>
        transactionLogoURL a = Some u \<and>
        ((\<forall>e. parseERC20Tx env i = Some e \<longrightarrow>
               erc20_name e \<notin> {''transfer'', ''transferFrom'', ''approve''}) \<longrightarrow>
         (\<exists>n. variant a = ContractInteraction n))) \<and>
     (tx_input tx \<in> {Undefined, Null, Defined ''0x''} \<longrightarrow> transactionLogoURL a = None)"
proof -
  from assms(2) obtain blk pa where
    pa: "snd (primaryAnnotation env net tx dd (dateNow env) blk) = Fulfilled pa" and
    at: "snd (attachSubannotations env net tx dd (dateNow env) blk pa) = Fulfilled r"
    unfolding resolveTransactionAnnotation_def Let_def snd_await_Fulfilled by blast
  from primary_Some [OF pa] obtain p where p: "pa = Some p" by blast
  from attach_keeps [OF at [unfolded p]] obtain a where
    a: "r = Some a" and u: "transactionLogoURL a = transactionLogoURL p"
    and v: "variant a = variant p"
    by auto
  have 1: "transactionLogoURL a = Some u \<and>
        ((\<forall>e. parseERC20Tx env i = Some e \<longrightarrow>
               erc20_name e \<notin> {''transfer'', ''transferFrom'', ''approve''}) \<longrightarrow>
         (\<exists>n. variant a = ContractInteraction n))"
    if i: "tx_input tx = Defined i" "i \<noteq> ''0x''"
      and g: "getCachedAssets env net = Fulfilled assets"
      and f: "findMatchingFungibleAsset env assets to = Some m"
      and m: "metadata m = Some md" "logoURL md = Some u"
    for i assets m md u
  proof -
    have l: "logoURLOf (Some m) = Some u"
      using m by (simp add: logoURLOf_def)
    from primary_call_data [OF assms(1) i pa] g f l p
    have "transactionLogoURL p = Some u \<and>
       ((\<forall>e. parseERC20Tx env i = Some e \<longrightarrow>
              erc20_name e \<notin> {''transfer'', ''transferFrom'', ''approve''}) \<longrightarrow>
        (\<exists>n. variant p = ContractInteraction n))"
      by (auto simp: Let_def split: if_splits)
    then show ?thesis by (simp add: u v)
  qed
  have 2: "transactionLogoURL a = None"
    if "tx_input tx \<in> {Undefined, Null, Defined ''0x''}"
    using primary_empty_input [OF assms(1) that pa] p u by auto
  show ?thesis
    apply (rule exI [of _ a])
    apply (intro conjI allI impI)
    subgoal by (rule a)
    subgoal using 1 by blast
    subgoal using 1 by blast
    subgoal using 2 by blast
    done
qed

theorem logo_independent_of_decode_witness:
  "tx_to (tokenTransaction ''0xdeadbeef'') = Some ''0xa0b8'' \<and>
   tx_input (tokenTransaction ''0xdeadbeef'') = Defined ''0xdeadbeef'' \<and>
   ''0xdeadbeef'' \<noteq> ''0x'' \<and>
   getCachedAssets exampleCollaborators mainnet = Fulfilled [ETH, USDC] \<and>
   findMatchingFungibleAsset exampleCollaborators [ETH, USDC] ''0xa0b8'' = Some USDC \<and>
   metadata USDC = Some \<lparr>logoURL = Some ''usdc.png''\<rparr> \<and>
   parseERC20Tx exampleCollaborators ''0xdeadbeef'' = None \<and>
   (\<exists>a n. snd (resolveTransactionAnnotation exampleCollaborators mainnet
                 (tokenTransaction ''0xdeadbeef'') 2) = Fulfilled (Some a) \<and>
          transactionLogoURL a = Some ''usdc.png'' \<and> variant a = ContractInteraction n) \<and>
   tx_to etherToTokenTransaction = Some ''0xa0b8'' \<and>
   tx_input etherToTokenTransaction = Defined ''0x'' \<and>
   (\<exists>a. snd (resolveTransactionAnnotation exampleCollaborators mainnet
               etherToTokenTransaction 2) = Fulfilled (Some a) \<and>
        transactionLogoURL a = None)"
proof -
  have 1: "tx_to (tokenTransaction ''0xdeadbeef'') = Some ''0xa0b8''"
    and 2: "tx_input (tokenTransaction ''0xdeadbeef'') = Defined ''0xdeadbeef''"
    and 3: "''0xdeadbeef'' \<noteq> ''0x''"
    and 4: "getCachedAssets exampleCollaborators mainnet = Fulfilled [ETH, USDC]"
    and 5: "findMatchingFungibleAsset exampleCollaborators [ETH, USDC] ''0xa0b8'' = Some USDC"
    and 6: "metadata USDC = Some \<lparr>logoURL = Some ''usdc.png''\<rparr>"
    and 7: "logoURL \<lparr>logoURL = Some ''usdc.png''\<rparr> = Some ''usdc.png''"
    and 8: "parseERC20Tx exampleCollaborators ''0xdeadbeef'' = None"
    and 9: "tx_to etherToTokenTransaction = Some ''0xa0b8''"
    and 10: "tx_input etherToTokenTransaction = Defined ''0x''"
    by (simp_all add: example_defs findMatchingFungibleAsset_def etherToTokenTransaction_def)
  have r: "snd (resolveTransactionAnnotation exampleCollaborators mainnet
                 (tokenTransaction ''0xdeadbeef'') 2)
             = Fulfilled (Some (TransactionAnnotation 1000 None (Some ''usdc.png'')
                 (ContractInteraction None) None))"
    by (simp add: model_defs example_defs)
  have e: "snd (resolveTransactionAnnotation exampleCollaborators mainnet
                 etherToTokenTransaction 2)
             = Fulfilled (Some (TransactionAnnotation 1000 None None
                 (AssetTransfer \<lparr>asset = ETH, amount = 0\<rparr> ''0xa11ce'' ''0xa0b8'' None) None))"
    by (simp add: model_defs example_defs etherToTokenTransaction_def)
  have a: "\<exists>a n. snd (resolveTransactionAnnotation exampleCollaborators mainnet
                 (tokenTransaction ''0xdeadbeef'') 2) = Fulfilled (Some a) \<and>
          transactionLogoURL a = Some ''usdc.png'' \<and> variant a = ContractInteraction n"
    using logo_independent_of_decode [OF 1 r] by (simp add: r)
  have b: "\<exists>a. snd (resolveTransactionAnnotation exampleCollaborators mainnet
               etherToTokenTransaction 2) = Fulfilled (Some a) \<and>
        transactionLogoURL a = None"
    using logo_independent_of_decode [OF 9 e] by (simp add: e)
  show ?thesis
    using a b 1 2 3 4 5 6 8 9 10 by (simp only: simp_thms)
qed

section \<open>Rejected name lookups\<close>

text \<open>
  Claim C5 (name resolution failure is never fatal) does not hold of the code when the
  lookup rejects: the single-address lookups are awaited without a handler, so the
  rejection leaves \<^verbatim>\<open>resolveTransactionAnnotation\<close> and no annotation is produced.
  Evaluated here in the empty-input branch and in the contract-interaction fallback, for
  a recipient whose lookup rejects.\<close>

theorem single_lookup_rejection_propagates:
  "resolveTransactionAnnotation exampleCollaborators mainnet
     (unnamedRecipientTransaction (Defined ''0x'')) 2 =
     ([LookUpName ''0xbad'' mainnet], Rejected ''timeout'') \<and>
   resolveTransactionAnnotation exampleCollaborators mainnet
     (unnamedRecipientTransaction (Defined ''0xdeadbeef'')) 2 =
     ([GetCachedAssets mainnet, LookUpName ''0xbad'' mainnet], Rejected ''timeout'')"
  by (simp add: model_defs example_defs unnamedRecipientTransaction_def)

section \<open>The addresses of the name resolution batch\<close>

text \<open>
  Claim C6, as stated, fails: the batch is built from all decoded transfer logs before
  any of them is matched against the assets.  For a single decoded log whose contract
  matches no known asset, the name of its recipient is still looked up.\<close>

theorem lookups_for_unmatched_logs_counterexample:
  "parseLogsForERC20Transfers exampleCollaborators unmatchedLogs =
     [\<lparr>log_contractAddress = ''0xdead'', log_amount = 5, log_senderAddress = ''0xa11ce'',
       log_recipientAddress = ''0xccc''\<rparr>] \<and>
   getCachedAssets exampleCollaborators mainnet = Fulfilled [ETH, USDC] \<and>
   findMatchingFungibleAsset exampleCollaborators [ETH, USDC] ''0xdead'' = None \<and>
   resolveTransactionAnnotation exampleCollaborators mainnet (loggedTransaction unmatchedLogs) 2 =
     ([GetBlockData mainnet ''0xb10c'', GetCachedAssets mainnet, LookUpName ''0xccc'' mainnet],
      Fulfilled (Some (TransactionAnnotation 1000 (Some 900) None ContractDeployment None)))"
  by (simp add: model_defs example_defs log_example_defs unmatchedLogs_def)

lemma fst_await_Fulfilled: "snd p = Fulfilled x \<Longrightarrow> fst (await p k) = fst p @ fst (k x)"
  by (cases p) (auto simp: await_def split: prod.splits)

lemma await_Fulfilled: "await (cs, Fulfilled x) k = (cs @ fst (k x), snd (k x))"
  by (simp add: await_def split: prod.splits)

lemma fst_resolved: "fst (resolved x) = []"
  by (simp add: resolved_def)

lemma fst_rejected: "fst (rejected e) = []"
  by (simp add: rejected_def)

lemma fst_lookUpName_entry:
  "fst (await (nameService_lookUpName env a net) (\<lambda>r. resolved (g r))) = [LookUpName a net]"
  by (cases "lookUpName env a net")
     (simp_all add: await_def nameService_lookUpName_def resolved_def)

lemma fst_lookUpNamesByAddress:
  "fst (lookUpNamesByAddress env net ls) =
     map (\<lambda>a. LookUpName a net) (transferLogAddresses ls)"
proof -
  have "concat (map (\<lambda>a. [LookUpName a net]) xs) = map (\<lambda>a. LookUpName a net) xs" for xs
    by (induction xs) simp_all
  then show ?thesis
    by (simp add: lookUpNamesByAddress_def allSettled_def await_Fulfilled fst_resolved
          comp_def fst_lookUpName_entry)
qed

lemma fst_attach_logs:
  assumes "logs tx = Some ls" and "getCachedAssets env net = Fulfilled assets"
  shows "fst (attachSubannotations env net tx dd t b pa) =
           GetCachedAssets net #
           map (\<lambda>a. LookUpName a net) (transferLogAddresses (parseLogsForERC20Transfers env ls))"
  using assms unfolding attachSubannotations_def
  by (simp add: await_Fulfilled fst_await_Fulfilled [OF snd_lookUpNamesByAddress]
        fst_lookUpNamesByAddress fst_resolved fst_rejected indexingService_getCachedAssets_def
        Let_def split: option.splits)

lemma set_transferLogAddresses:
  "set (transferLogAddresses ls) = log_recipientAddress ` set ls"
  by (simp add: transferLogAddresses_def setToArray_def)

lemma distinct_transferLogAddresses: "distinct (transferLogAddresses ls)"
  by (simp add: transferLogAddresses_def setToArray_def)

text \<open>
  Claim C6, amended.  For a transaction with logs whose resolution fulfils, the calls of
  the log pass are one read of the asset list followed by one name lookup for each
  distinct recipient address of all decoded transfer logs, whether or not the contract of
  the log matches a known asset: the addresses are deduplicated, each is looked up once
  in the batch and not once per log.  The calls before them are those of the block lookup
  and of the primary annotation.\<close>

theorem log_pass_lookups:
  assumes "logs tx = Some ls"
    and "snd (resolveTransactionAnnotation env net tx dd) = Fulfilled r"
  shows "\<exists>blk. fst (resolveTransactionAnnotation env net tx dd) =
           fst (if truthy (blockHash tx)
                then chainService_getBlockData env net (the (blockHash tx))
                else resolved None) @
           fst (primaryAnnotation env net tx dd (dateNow env) blk) @
           GetCachedAssets net #
           map (\<lambda>a. LookUpName a net)
             (transferLogAddresses (parseLogsForERC20Transfers env ls)) \<and>
         distinct (transferLogAddresses (parseLogsForERC20Transfers env ls)) \<and>
         set (transferLogAddresses (parseLogsForERC20Transfers env ls)) =
           log_recipientAddress ` set (parseLogsForERC20Transfers env ls)"
proof -
  from assms(2) obtain blk pa where
    b: "snd (if truthy (blockHash tx)
             then chainService_getBlockData env net (the (blockHash tx))
             else resolved None) = Fulfilled blk" and
    pa: "snd (primaryAnnotation env net tx dd (dateNow env) blk) = Fulfilled pa" and
    at: "snd (attachSubannotations env net tx dd (dateNow env) blk pa) = Fulfilled r"
    unfolding resolveTransactionAnnotation_def Let_def snd_await_Fulfilled by blast
  from primary_Some [OF pa] obtain p where p: "pa = Some p" by blast
  from attach_logs [OF assms(1) at [unfolded p]] obtain assets where
    g: "getCachedAssets env net = Fulfilled assets" by blast
  have "fst (resolveTransactionAnnotation env net tx dd) =
           fst (if truthy (blockHash tx)
                then chainService_getBlockData env net (the (blockHash tx))
                else resolved None) @
           fst (primaryAnnotation env net tx dd (dateNow env) blk) @
           GetCachedAssets net #
           map (\<lambda>a. LookUpName a net)
             (transferLogAddresses (parseLogsForERC20Transfers env ls))"
    unfolding resolveTransactionAnnotation_def Let_def
    by (simp only: fst_await_Fulfilled [OF b] fst_await_Fulfilled [OF pa]
          fst_attach_logs [OF assms(1) g])
  then show ?thesis
    using distinct_transferLogAddresses set_transferLogAddresses by blast
qed

theorem log_pass_lookups_witness:
  "logs (loggedTransaction threeLogs) = Some threeLogs \<and>
   fst (resolveTransactionAnnotation exampleCollaborators mainnet (loggedTransaction threeLogs) 2)
     = [GetBlockData mainnet ''0xb10c'', GetCachedAssets mainnet, LookUpName ''0xb0b'' mainnet,
        LookUpName ''0xccc'' mainnet, LookUpName ''0xbad'' mainnet] \<and>
   set (transferLogAddresses (parseLogsForERC20Transfers exampleCollaborators threeLogs)) =
     {''0xb0b'', ''0xccc'', ''0xbad''}"
proof -
  have l: "logs (loggedTransaction threeLogs) = Some threeLogs"
    by (simp add: loggedTransaction_def)
  have r: "snd (resolveTransactionAnnotation exampleCollaborators mainnet
               (loggedTransaction threeLogs) 2) =
      Fulfilled (Some (TransactionAnnotation 1000 (Some 900) None ContractDeployment
        (Some [TransactionAnnotation 1000 (Some 900) None
                 (AssetTransfer \<lparr>asset = USDC, amount = 5\<rparr> ''0xa11ce'' ''0xb0b''
                    (Some ''bob.eth'')) None,
               TransactionAnnotation 1000 (Some 900) None
                 (AssetTransfer \<lparr>asset = USDC, amount = 5\<rparr> ''0xa11ce'' ''0xbad'' None)
                 None])))"
    by (simp add: threeLogs_resolved)
  have s: "set (transferLogAddresses (parseLogsForERC20Transfers exampleCollaborators threeLogs))
             = {''0xb0b'', ''0xccc'', ''0xbad''}"
    by (auto simp: exampleCollaborators_def log_example_defs transferLogAddresses_def
          setToArray_def)
  show ?thesis
    using log_pass_lookups [OF l r] by (simp add: l s threeLogs_resolved)
qed

section \<open>The name resolution batch\<close>

lemma set_fulfilledNames:
  "set (fulfilledNames rs) = {(k, n). Fulfilled (k, Some n) \<in> set rs}"
  by (induction rs rule: fulfilledNames.induct) auto

lemma snd_lookUpName_entry:
  "snd (await (nameService_lookUpName env a net) (\<lambda>r. resolved (g r))) =
     (case lookUpName env a net of Rejected e \<Rightarrow> Rejected e | Fulfilled r \<Rightarrow> Fulfilled (g r))"
  by (cases "lookUpName env a net")
     (simp_all add: await_def nameService_lookUpName_def resolved_def)

lemma fromEntries_Some: "fromEntries es k = Some n \<Longrightarrow> (k, n) \<in> set es"
  by (auto simp: fromEntries_def dest: map_of_SomeD)

lemma fromEntries_None: "fromEntries es k = None \<Longrightarrow> (k, n) \<notin> set es"
  by (force simp: fromEntries_def map_of_eq_None_iff)

lemma entry_named:
  "snd (await (nameService_lookUpName env a net)
          (\<lambda>r. resolved (normalizeEVMAddress env a, r))) = Fulfilled (k, Some n) \<longleftrightarrow>
   normalizeEVMAddress env a = k \<and> lookUpName env a net = Fulfilled (Some n)"
  by (cases "lookUpName env a net") (auto simp: snd_lookUpName_entry)

lemma entry_named_sym:
  "Fulfilled (k, Some n) = snd (await (nameService_lookUpName env a net)
          (\<lambda>r. resolved (normalizeEVMAddress env a, r))) \<longleftrightarrow>
   normalizeEVMAddress env a = k \<and> lookUpName env a net = Fulfilled (Some n)"
  by (cases "lookUpName env a net") (auto simp: snd_lookUpName_entry)

lemma names_entry:
  "(k, n) \<in> set (fulfilledNames
       (map (\<lambda>address. snd (await (nameService_lookUpName env address net)
                                (\<lambda>r. resolved (normalizeEVMAddress env address, r))))
            (transferLogAddresses ls))) \<longleftrightarrow>
   (\<exists>l \<in> set ls. normalizeEVMAddress env (log_recipientAddress l) = k \<and>
                  lookUpName env (log_recipientAddress l) net = Fulfilled (Some n))"
  by (auto simp: set_fulfilledNames entry_named entry_named_sym set_transferLogAddresses image_iff)

lemma namesByAddress_of_recipient:
  assumes h: "\<forall>l \<in> set ls. \<forall>l' \<in> set ls.
         normalizeEVMAddress env (log_recipientAddress l) =
           normalizeEVMAddress env (log_recipientAddress l') \<longrightarrow>
         (case lookUpName env (log_recipientAddress l) net of
            Fulfilled (Some n) \<Rightarrow> Some n | _ \<Rightarrow> None) =
         (case lookUpName env (log_recipientAddress l') net of
            Fulfilled (Some n) \<Rightarrow> Some n | _ \<Rightarrow> None)"
    and l: "l \<in> set ls"
  shows "fromEntries (fulfilledNames
       (map (\<lambda>address. snd (await (nameService_lookUpName env address net)
                                (\<lambda>r. resolved (normalizeEVMAddress env address, r))))
            (transferLogAddresses ls))) (normalizeEVMAddress env (log_recipientAddress l)) =
         (case lookUpName env (log_recipientAddress l) net of
            Fulfilled (Some n) \<Rightarrow> Some n | _ \<Rightarrow> None)"
proof -
  let ?es = "fulfilledNames
       (map (\<lambda>address. snd (await (nameService_lookUpName env address net)
                                (\<lambda>r. resolved (normalizeEVMAddress env address, r))))
            (transferLogAddresses ls))"
  let ?nameOf = "\<lambda>l. case lookUpName env (log_recipientAddress l) net of
            Fulfilled (Some n) \<Rightarrow> Some n | _ \<Rightarrow> None"
  show "fromEntries ?es (normalizeEVMAddress env (log_recipientAddress l)) = ?nameOf l"
  proof (cases "fromEntries ?es (normalizeEVMAddress env (log_recipientAddress l))")
    case None
    have "?nameOf l = None"
    proof (rule ccontr)
      assume "?nameOf l \<noteq> None"
      then obtain n where "lookUpName env (log_recipientAddress l) net = Fulfilled (Some n)"
        by (auto split: settled.splits option.splits)
      with l have "(normalizeEVMAddress env (log_recipientAddress l), n) \<in> set ?es"
        unfolding names_entry by blast
      with fromEntries_None [OF None] show False by blast
    qed
    with None show ?thesis by simp
  next
    case (Some n)
    from fromEntries_Some [OF Some] obtain l' where
      l': "l' \<in> set ls" and
      k: "normalizeEVMAddress env (log_recipientAddress l') =
          normalizeEVMAddress env (log_recipientAddress l)" and
      n: "lookUpName env (log_recipientAddress l') net = Fulfilled (Some n)"
      unfolding names_entry by blast
    from h l l' k have "?nameOf l = ?nameOf l'" by metis
    with n Some show ?thesis by simp
  qed
qed

lemma resolveSubannotations_cong:
  assumes "\<And>l. l \<in> set ls \<Longrightarrow> names (normalizeEVMAddress env (log_recipientAddress l)) = f l"
  shows "resolveSubannotations env assets names dd t b ls =
     concat (map (\<lambda>l.
       case findMatchingFungibleAsset env assets (log_contractAddress l) of
         None \<Rightarrow> []
       | Some m \<Rightarrow>
           [TransactionAnnotation t (timestampOf b) None
              (AssetTransfer
                 (enrichAssetAmountWithDecimalValues env \<lparr>asset = m, amount = log_amount l\<rparr> dd)
                 (log_senderAddress l) (log_recipientAddress l) (f l))
              None]) ls)"
  unfolding resolveSubannotations_def Let_def
  by (rule arg_cong [where f = concat], rule map_cong) (simp_all add: assms split: option.splits)

lemma ex_conj_mp: "\<exists>a. R a \<and> (H \<longrightarrow> C a) \<Longrightarrow> H \<Longrightarrow> \<exists>a. R a \<and> C a"
  by blast

text \<open>
  Claim C4, as stated, fails when two addresses of the batch are spellings of one address.
  The batch is deduplicated on the addresses as written (lines 273-277), but the names are
  stored and read under the normalised address (lines 281 and 308).  Here the lookup of
  \<^verbatim>\<open>0xB0B\<close> rejects and that of \<^verbatim>\<open>0xb0b\<close> fulfils with a name; both normalise
  to the same key, and the subannotation for the recipient \<^verbatim>\<open>0xB0B\<close> carries the
  name found for \<^verbatim>\<open>0xb0b\<close> instead of no name.\<close>

theorem names_of_two_spellings_counterexample:
  "lookUpName caseFoldingCollaborators ''0xb0b'' mainnet = Fulfilled (Some ''bob.eth'') \<and>
   lookUpName caseFoldingCollaborators ''0xB0B'' mainnet = Rejected ''timeout'' \<and>
   normalizeEVMAddress caseFoldingCollaborators ''0xB0B'' = ''0xb0b'' \<and>
   resolveTransactionAnnotation caseFoldingCollaborators mainnet
     (loggedTransaction twoSpellingsLogs) 2 =
     ([GetBlockData mainnet ''0xb10c'', GetCachedAssets mainnet, LookUpName ''0xb0b'' mainnet,
       LookUpName ''0xB0B'' mainnet],
      Fulfilled (Some (TransactionAnnotation 1000 (Some 900) None ContractDeployment
        (Some [TransactionAnnotation 1000 (Some 900) None
                 (AssetTransfer \<lparr>asset = USDC, amount = 5\<rparr> ''0xa11ce'' ''0xb0b''
                    (Some ''bob.eth'')) None,
               TransactionAnnotation 1000 (Some 900) None
                 (AssetTransfer \<lparr>asset = USDC, amount = 5\<rparr> ''0xa11ce'' ''0xB0B''
                    (Some ''bob.eth'')) None]))))"
  by (simp add: model_defs example_defs log_example_defs caseFoldingCollaborators_def
        twoSpellingsLogs_def lowerHexDigit_def)

text \<open>
  Claim C4, amended.  For a transaction with logs, whenever the calls before the batch
  (the block lookup, the primary annotation and the read of the asset list) fulfil,
  \<^verbatim>\<open>resolveTransactionAnnotation\<close> fulfils with an annotation, whatever the lookups
  of the batch do and for a batch of any size: the batch never rejects.  Provided that
  recipients of decoded logs with the same normalised address have the same lookup
  outcome (in particular when no two addresses of the batch normalise to the same key),
  the subannotations are, in the order of the decoded logs, one asset transfer for each
  log whose contract matches a known asset, and the \<open>recipientName\<close> of each is the
  name the lookup of its own recipient fulfilled with, and is undefined when that lookup
  rejected or returned no name, whatever the lookups of the other addresses did.\<close>

theorem subannotation_names_independent:
  assumes "logs tx = Some ls"
    and "snd (if truthy (blockHash tx)
              then chainService_getBlockData env net (the (blockHash tx))
              else resolved None) = Fulfilled blk"
    and "snd (primaryAnnotation env net tx dd (dateNow env) blk) = Fulfilled pa"
    and "getCachedAssets env net = Fulfilled assets"
  shows "\<exists>a. snd (resolveTransactionAnnotation env net tx dd) = Fulfilled (Some a) \<and>
     ((\<forall>l \<in> set (parseLogsForERC20Transfers env ls).
       \<forall>l' \<in> set (parseLogsForERC20Transfers env ls).
         normalizeEVMAddress env (log_recipientAddress l) =
           normalizeEVMAddress env (log_recipientAddress l') \<longrightarrow>
         (case lookUpName env (log_recipientAddress l) net of
            Fulfilled (Some n) \<Rightarrow> Some n | _ \<Rightarrow> None) =
         (case lookUpName env (log_recipientAddress l') net of
            Fulfilled (Some n) \<Rightarrow> Some n | _ \<Rightarrow> None)) \<longrightarrow>
      (case subannotations a of None \<Rightarrow> [] | Some subs \<Rightarrow> subs) =
        concat (map (\<lambda>l.
          case findMatchingFungibleAsset env assets (log_contractAddress l) of
            None \<Rightarrow> []
          | Some m \<Rightarrow>
              [TransactionAnnotation (dateNow env) (timestampOf blk) None
                 (AssetTransfer
                    (enrichAssetAmountWithDecimalValues env
                       \<lparr>asset = m, amount = log_amount l\<rparr> dd)
                    (log_senderAddress l) (log_recipientAddress l)
                    (case lookUpName env (log_recipientAddress l) net of
                       Fulfilled (Some n) \<Rightarrow> Some n | _ \<Rightarrow> None))
                 None]) (parseLogsForERC20Transfers env ls)))"
proof -
  let ?D = "parseLogsForERC20Transfers env ls"
  let ?names = "fromEntries (fulfilledNames
       (map (\<lambda>address. snd (await (nameService_lookUpName env address net)
                                (\<lambda>r. resolved (normalizeEVMAddress env address, r))))
            (transferLogAddresses ?D)))"
  let ?subs = "resolveSubannotations env assets ?names dd (dateNow env) blk ?D"
  from primary_Some [OF assms(3)] obtain p where p: "pa = Some p" by blast
  have s: "subannotations p = None"
    using primary_subannotations assms(3) p by blast
  from attach_fulfils [OF assms(4)] obtain a where
    a: "snd (attachSubannotations env net tx dd (dateNow env) blk (Some p)) = Fulfilled (Some a)"
    by blast
  from attach_logs [OF assms(1) a] assms(4) snd_lookUpNamesByAddress [of env net ?D]
  have sa: "subannotations a = (if ?subs = [] then None else Some ?subs)"
    by (auto simp: Let_def s)
  have r: "snd (resolveTransactionAnnotation env net tx dd) = Fulfilled (Some a)"
    unfolding resolveTransactionAnnotation_def Let_def
    by (simp add: snd_await_eq [OF assms(2)] snd_await_eq [OF assms(3)] p a)
  show ?thesis
  proof (intro exI [of _ a] conjI impI)
    show "snd (resolveTransactionAnnotation env net tx dd) = Fulfilled (Some a)" by (rule r)
  next
    assume h: "\<forall>l \<in> set ?D. \<forall>l' \<in> set ?D.
         normalizeEVMAddress env (log_recipientAddress l) =
           normalizeEVMAddress env (log_recipientAddress l') \<longrightarrow>
         (case lookUpName env (log_recipientAddress l) net of
            Fulfilled (Some n) \<Rightarrow> Some n | _ \<Rightarrow> None) =
         (case lookUpName env (log_recipientAddress l') net of
            Fulfilled (Some n) \<Rightarrow> Some n | _ \<Rightarrow> None)"
    have "(case subannotations a of None \<Rightarrow> [] | Some subs \<Rightarrow> subs) = ?subs"
      by (simp add: sa)
    also have "?subs = concat (map (\<lambda>l.
          case findMatchingFungibleAsset env assets (log_contractAddress l) of
            None \<Rightarrow> []
          | Some m \<Rightarrow>
              [TransactionAnnotation (dateNow env) (timestampOf blk) None
                 (AssetTransfer
                    (enrichAssetAmountWithDecimalValues env
                       \<lparr>asset = m, amount = log_amount l\<rparr> dd)
                    (log_senderAddress l) (log_recipientAddress l)
                    (case lookUpName env (log_recipientAddress l) net of
                       Fulfilled (Some n) \<Rightarrow> Some n | _ \<Rightarrow> None))
                 None]) ?D)"
      by (rule resolveSubannotations_cong) (rule namesByAddress_of_recipient [OF h])
    finally show "(case subannotations a of None \<Rightarrow> [] | Some subs \<Rightarrow> subs) =
        concat (map (\<lambda>l.
          case findMatchingFungibleAsset env assets (log_contractAddress l) of
            None \<Rightarrow> []
          | Some m \<Rightarrow>
              [TransactionAnnotation (dateNow env) (timestampOf blk) None
                 (AssetTransfer
                    (enrichAssetAmountWithDecimalValues env
                       \<lparr>asset = m, amount = log_amount l\<rparr> dd)
                    (log_senderAddress l) (log_recipientAddress l)
                    (case lookUpName env (log_recipientAddress l) net of
                       Fulfilled (Some n) \<Rightarrow> Some n | _ \<Rightarrow> None))
                 None]) ?D)" .
  qed
qed



theorem subannotation_names_independent_witness:
  "logs (loggedTransaction threeLogs) = Some threeLogs \<and>
   distinct (map (\<lambda>l. normalizeEVMAddress exampleCollaborators (log_recipientAddress l))
      decodedThreeLogs) \<and>
   length decodedThreeLogs = 3 \<and>
   lookUpName exampleCollaborators ''0xbad'' mainnet = Rejected ''timeout'' \<and>
   (\<exists>a. snd (resolveTransactionAnnotation exampleCollaborators mainnet
               (loggedTransaction threeLogs) 2) = Fulfilled (Some a) \<and>
        subannotations a =
          Some [TransactionAnnotation 1000 (Some 900) None
                  (AssetTransfer \<lparr>asset = USDC, amount = 5\<rparr> ''0xa11ce'' ''0xb0b''
                     (Some ''bob.eth'')) None,
                TransactionAnnotation 1000 (Some 900) None
                  (AssetTransfer \<lparr>asset = USDC, amount = 5\<rparr> ''0xa11ce'' ''0xbad'' None)
                  None])"
proof -
  let ?tx = "loggedTransaction threeLogs"
  have ls: "parseLogsForERC20Transfers exampleCollaborators threeLogs =
      [\<lparr>log_contractAddress = ''0xa0b8'', log_amount = 5, log_senderAddress = ''0xa11ce'',
        log_recipientAddress = ''0xb0b''\<rparr>,
       \<lparr>log_contractAddress = ''0xdead'', log_amount = 5, log_senderAddress = ''0xa11ce'',
        log_recipientAddress = ''0xccc''\<rparr>,
       \<lparr>log_contractAddress = ''0xa0b8'', log_amount = 5, log_senderAddress = ''0xa11ce'',
        log_recipientAddress = ''0xbad''\<rparr>]"
    by (simp add: exampleCollaborators_def log_example_defs)
  have l: "logs ?tx = Some threeLogs"
    by (simp add: loggedTransaction_def)
  have b: "snd (if truthy (blockHash ?tx)
              then chainService_getBlockData exampleCollaborators mainnet (the (blockHash ?tx))
              else resolved None) = Fulfilled (Some \<lparr>blockTimestamp_of = 900\<rparr>)"
    by (simp add: loggedTransaction_def truthy_def chainService_getBlockData_def
          exampleCollaborators_def)
  have p: "snd (primaryAnnotation exampleCollaborators mainnet ?tx 2
                 (dateNow exampleCollaborators) (Some \<lparr>blockTimestamp_of = 900\<rparr>)) =
           Fulfilled (Some (TransactionAnnotation 1000 (Some 900) None ContractDeployment None))"
    by (simp add: primaryAnnotation_def loggedTransaction_def resolved_def timestampOf_def
          exampleCollaborators_def)
  have g: "getCachedAssets exampleCollaborators mainnet = Fulfilled [ETH, USDC]"
    by (simp add: exampleCollaborators_def)
  have h: "\<forall>l \<in> set (parseLogsForERC20Transfers exampleCollaborators threeLogs).
       \<forall>l' \<in> set (parseLogsForERC20Transfers exampleCollaborators threeLogs).
         normalizeEVMAddress exampleCollaborators (log_recipientAddress l) =
           normalizeEVMAddress exampleCollaborators (log_recipientAddress l') \<longrightarrow>
         (case lookUpName exampleCollaborators (log_recipientAddress l) mainnet of
            Fulfilled (Some n) \<Rightarrow> Some n | _ \<Rightarrow> None) =
         (case lookUpName exampleCollaborators (log_recipientAddress l') mainnet of
            Fulfilled (Some n) \<Rightarrow> Some n | _ \<Rightarrow> None)"
    unfolding ls by (simp add: exampleCollaborators_def)
  have f: "findMatchingFungibleAsset exampleCollaborators [ETH, USDC] ''0xa0b8'' = Some USDC"
    "findMatchingFungibleAsset exampleCollaborators [ETH, USDC] ''0xdead'' = None"
    by (simp_all add: findMatchingFungibleAsset_def example_defs)
  have n: "lookUpName exampleCollaborators ''0xb0b'' mainnet = Fulfilled (Some ''bob.eth'')"
    "lookUpName exampleCollaborators ''0xbad'' mainnet = Rejected ''timeout''"
    "dateNow exampleCollaborators = 1000"
    "enrichAssetAmountWithDecimalValues exampleCollaborators = (\<lambda>a d. a)"
    by (simp_all add: exampleCollaborators_def)
  have "\<exists>a. snd (resolveTransactionAnnotation exampleCollaborators mainnet ?tx 2) =
          Fulfilled (Some a) \<and>
        (case subannotations a of None \<Rightarrow> [] | Some subs \<Rightarrow> subs) =
          concat (map (\<lambda>l.
            case findMatchingFungibleAsset exampleCollaborators [ETH, USDC]
                   (log_contractAddress l) of
              None \<Rightarrow> []
            | Some m \<Rightarrow>
                [TransactionAnnotation (dateNow exampleCollaborators)
                   (timestampOf (Some \<lparr>blockTimestamp_of = 900\<rparr>)) None
                   (AssetTransfer
                      (enrichAssetAmountWithDecimalValues exampleCollaborators
                         \<lparr>asset = m, amount = log_amount l\<rparr> 2)
                      (log_senderAddress l) (log_recipientAddress l)
                      (case lookUpName exampleCollaborators (log_recipientAddress l) mainnet of
                         Fulfilled (Some n) \<Rightarrow> Some n | _ \<Rightarrow> None))
                   None]) (parseLogsForERC20Transfers exampleCollaborators threeLogs))"
    by (rule ex_conj_mp [OF subannotation_names_independent [OF l b p g] h])
  then obtain a where
    r: "snd (resolveTransactionAnnotation exampleCollaborators mainnet ?tx 2) =
          Fulfilled (Some a)" and
    s: "(case subannotations a of None \<Rightarrow> [] | Some subs \<Rightarrow> subs) =
          [TransactionAnnotation 1000 (Some 900) None
                  (AssetTransfer \<lparr>asset = USDC, amount = 5\<rparr> ''0xa11ce'' ''0xb0b''
                     (Some ''bob.eth'')) None,
                TransactionAnnotation 1000 (Some 900) None
                  (AssetTransfer \<lparr>asset = USDC, amount = 5\<rparr> ''0xa11ce'' ''0xbad'' None)
                  None]"
    unfolding ls by (simp add: f n timestampOf_def) (erule exE, erule conjE)
  from s have "subannotations a =
          Some [TransactionAnnotation 1000 (Some 900) None
                  (AssetTransfer \<lparr>asset = USDC, amount = 5\<rparr> ''0xa11ce'' ''0xb0b''
                     (Some ''bob.eth'')) None,
                TransactionAnnotation 1000 (Some 900) None
                  (AssetTransfer \<lparr>asset = USDC, amount = 5\<rparr> ''0xa11ce'' ''0xbad'' None)
                  None]"
    by (cases "subannotations a") auto
  moreover have "distinct (map (\<lambda>l. normalizeEVMAddress exampleCollaborators
      (log_recipientAddress l)) decodedThreeLogs) \<and> length decodedThreeLogs = 3"
    unfolding decodedThreeLogs_def ls by (simp add: exampleCollaborators_def)
  ultimately show ?thesis using l r n(2) by (intro conjI exI [of _ a]) simp_all
qed

section \<open>Typed data signing requests\<close>


text \<open>
  Claim C8.  When the typed data has the EIP-2612 shape and the asset list is available,
  the request is annotated with the permit annotation, whose asset is the known asset
  found for the verifying contract and is undefined when none is found; the annotation
  is then not \<open>Unrecognized\<close>.  When the typed data does not have the shape, the
  annotation is \<open>Unrecognized\<close> and no collaborator is called.\<close>

theorem typed_data_annotation:
  "(isEIP2612TypedData env (typedData req) \<longrightarrow>
      (\<forall>assets. getCachedAssets env (ETHEREUM env) = Fulfilled assets \<longrightarrow>
         (\<exists>a. snd (enrichSignTypedDataRequest env req) = Fulfilled (req, a) \<and>
              a \<noteq> Unrecognized \<and>
              a = enrichEIP2612SignTypedDataRequest (typedData req)
                    (findCorrespondingAsset env (typedData req) assets) \<and>
              permit_asset a = findCorrespondingAsset env (typedData req) assets))) \<and>
   (\<not> isEIP2612TypedData env (typedData req) \<longrightarrow>
      enrichSignTypedDataRequest env req = ([], Fulfilled (req, Unrecognized)))"
  by (simp add: enrichSignTypedDataRequest_def enrichEIP2612SignTypedDataRequest_def
        indexingService_getCachedAssets_def await_Fulfilled resolved_def Let_def)

theorem typed_data_annotation_witness:
  "isEIP2612TypedData exampleCollaborators (typedData (permitRequest ''Permit'' ''0x0d50'')) \<and>
   getCachedAssets exampleCollaborators (ETHEREUM exampleCollaborators) = Fulfilled [ETH, USDC] \<and>
   findCorrespondingAsset exampleCollaborators (typedData (permitRequest ''Permit'' ''0x0d50''))
     [ETH, USDC] = None \<and>
   (\<exists>a. snd (enrichSignTypedDataRequest exampleCollaborators (permitRequest ''Permit'' ''0x0d50''))
          = Fulfilled (permitRequest ''Permit'' ''0x0d50'', a) \<and>
        a \<noteq> Unrecognized \<and> permit_asset a = None) \<and>
   \<not> isEIP2612TypedData exampleCollaborators (typedData (permitRequest ''Mail'' ''0xa0b8'')) \<and>
   enrichSignTypedDataRequest exampleCollaborators (permitRequest ''Mail'' ''0xa0b8'') =
     ([], Fulfilled (permitRequest ''Mail'' ''0xa0b8'', Unrecognized))"
proof -
  have p: "isEIP2612TypedData exampleCollaborators (typedData (permitRequest ''Permit'' ''0x0d50''))"
    and g: "getCachedAssets exampleCollaborators (ETHEREUM exampleCollaborators)
              = Fulfilled [ETH, USDC]"
    and f: "findCorrespondingAsset exampleCollaborators
              (typedData (permitRequest ''Permit'' ''0x0d50'')) [ETH, USDC] = None"
    and m: "\<not> isEIP2612TypedData exampleCollaborators
              (typedData (permitRequest ''Mail'' ''0xa0b8''))"
    by (simp_all add: example_defs permitRequest_def findCorrespondingAsset_def truthy_def)
  show ?thesis
    using typed_data_annotation [of exampleCollaborators "permitRequest ''Permit'' ''0x0d50''"]
      typed_data_annotation [of exampleCollaborators "permitRequest ''Mail'' ''0xa0b8''"]
      p g f m
    by auto
qed



end
